theory Spec2Isabelle
  imports Complex_Main "HOL-Library.Word" "HOL-Library.List_Lexorder" "HOL-Library.Sublist"
begin

section \<open>JavaScript values\<close>

subsection \<open>Strings\<close>

text \<open>
  A JavaScript string is a sequence of UTF-16 code units, so it is a list of 16-bit words.
  \<open>js\<close> writes a Basic Latin literal; a letter outside Basic Latin is written by its code
  unit (\<open>0xC3\<close> for the A with tilde of the fourth status label). With
  \<open>List_Lexorder\<close>, \<open><\<close> on strings is the code-unit order that \<open>Array.prototype.sort\<close>
  uses when it is called without a comparison function.
\<close>

type_synonym jschar = "16 word"
type_synonym jsstring = "jschar list"

definition js :: "string \<Rightarrow> jsstring" where
  "js s = map of_char s"

text \<open>\<open>WhiteSpace\<close> and \<open>LineTerminator\<close> of ECMAScript: what \<open>trim\<close> removes.\<close>

definition isWhiteSpace :: "jschar \<Rightarrow> bool" where
  "isWhiteSpace c =
     (c = 0x9 \<or> c = 0xA \<or> c = 0xB \<or> c = 0xC \<or> c = 0xD \<or> c = 0x20 \<or> c = 0xA0 \<or>
      c = 0x1680 \<or> (0x2000 \<le> c \<and> c \<le> 0x200A) \<or> c = 0x2028 \<or> c = 0x2029 \<or>
      c = 0x202F \<or> c = 0x205F \<or> c = 0x3000 \<or> c = 0xFEFF)"

definition trimStart :: "jsstring \<Rightarrow> jsstring" where
  "trimStart s = dropWhile isWhiteSpace s"

definition trim :: "jsstring \<Rightarrow> jsstring" where
  "trim s = rev (dropWhile isWhiteSpace (rev (dropWhile isWhiteSpace s)))"

definition startsWith :: "jsstring \<Rightarrow> jsstring \<Rightarrow> bool" where
  "startsWith s p = (take (length p) s = p)"

fun includes_str :: "jsstring \<Rightarrow> jsstring \<Rightarrow> bool" where
  "includes_str [] p = (p = [])"
| "includes_str (c # cs) p = (startsWith (c # cs) p \<or> includes_str cs p)"

text \<open>\<open>s.replace(pat, rep)\<close> with a string pattern: only the first occurrence is replaced.\<close>

fun replaceFirst :: "jsstring \<Rightarrow> jsstring \<Rightarrow> jsstring \<Rightarrow> jsstring" where
  "replaceFirst pat rep [] = (if pat = [] then rep else [])"
| "replaceFirst pat rep (c # cs) =
     (if startsWith (c # cs) pat then rep @ drop (length pat) (c # cs)
      else c # replaceFirst pat rep cs)"

text \<open>\<open>s.replace(/c/g, '')\<close> for a one-character pattern: every occurrence goes.\<close>

definition removeAll_char :: "jschar \<Rightarrow> jsstring \<Rightarrow> jsstring" where
  "removeAll_char c s = filter (\<lambda>d. d \<noteq> c) s"

text \<open>\<open>s.split(sep)\<close> for a one-character separator: the empty string gives one empty piece.\<close>

fun split_char :: "jschar \<Rightarrow> jsstring \<Rightarrow> jsstring list" where
  "split_char sep [] = [[]]"
| "split_char sep (c # cs) =
     (if c = sep then [] # split_char sep cs
      else (case split_char sep cs of
              [] \<Rightarrow> [[c]]
            | l # ls \<Rightarrow> (c # l) # ls))"

text \<open>
  \<open>s.split(/\r?\n/)\<close>: the text is cut at every line feed, and a piece that a line feed
  ends loses one carriage return just before it. The last piece is ended by no line feed and
  keeps its carriage return.
\<close>

definition stripCR :: "jsstring \<Rightarrow> jsstring" where
  "stripCR l = (if l \<noteq> [] \<and> last l = 0xD then butlast l else l)"

definition splitLines :: "jsstring \<Rightarrow> jsstring list" where
  "splitLines s =
     (let pieces = split_char 0xA s in map stripCR (butlast pieces) @ [last pieces])"

subsection \<open>Numbers\<close>

text \<open>
  A number is a finite value, an infinity or NaN. A finite number is the real that the
  binary64 value denotes; the sign of zero is not modelled. \<open>parseFloat\<close> below returns the
  decimal value it reads: the rounding of that value to binary64 is not modelled there.
\<close>

datatype jsnum = Num real | PosInf | NegInf | NaN

fun isNaN :: "jsnum \<Rightarrow> bool" where
  "isNaN NaN = True"
| "isNaN _ = False"

subsection \<open>The platform\<close>

text \<open>
  Four operations of the JavaScript platform are parameters of the model: every function
  that needs one takes the platform as its first argument, and what is proved holds for any
  platform.
  \<^item> \<open>toUpperCase\<close> and \<open>toLowerCase\<close> are the Unicode case mappings of
    \<open>String.prototype\<close>, whose table is not part of the repository.
  \<^item> \<open>roundNumber\<close> is the rounding of binary64 arithmetic: the number that \<open>+\<close> or \<open>/\<close>
    returns for an exact real result (the nearest binary64 value, an infinity on overflow).
  \<^item> \<open>numberToString\<close> is \<open>Number::toString\<close> on a finite number, the shortest decimal
    text that reads back as the same binary64 value; the model needs it from \<open>10^21\<close> on,
    where it is in exponent notation.

  \<open>basicLatin\<close> is the platform used to run examples. It maps the letters a-z and A-Z and
  leaves every other code unit alone, which is what JavaScript does on Basic Latin text. Its
  arithmetic does not round: the examples compute with small integers and their halves, which
  binary64 holds exactly. Its \<open>numberToString\<close> is a placeholder that no example calls.
\<close>

record platform =
  toUpperCase :: "jsstring \<Rightarrow> jsstring"
  toLowerCase :: "jsstring \<Rightarrow> jsstring"
  roundNumber :: "real \<Rightarrow> jsnum"
  numberToString :: "real \<Rightarrow> jsstring"

definition basicLatin :: platform where
  "basicLatin =
     \<lparr> toUpperCase = map (\<lambda>c. if 0x61 \<le> c \<and> c \<le> 0x7A then c - 0x20 else c),
       toLowerCase = map (\<lambda>c. if 0x41 \<le> c \<and> c \<le> 0x5A then c + 0x20 else c),
       roundNumber = Num,
       numberToString = (\<lambda>r. []) \<rparr>"

subsection \<open>Arithmetic\<close>

text \<open>
  \<open>a + b\<close> on numbers: the exact sum of two finite numbers is rounded; the other cases are
  those of IEEE 754.
\<close>

fun js_add :: "platform \<Rightarrow> jsnum \<Rightarrow> jsnum \<Rightarrow> jsnum" where
  "js_add cm (Num a) (Num b) = roundNumber cm (a + b)"
| "js_add cm NaN _ = NaN"
| "js_add cm _ NaN = NaN"
| "js_add cm PosInf NegInf = NaN"
| "js_add cm NegInf PosInf = NaN"
| "js_add cm PosInf _ = PosInf"
| "js_add cm _ PosInf = PosInf"
| "js_add cm NegInf _ = NegInf"
| "js_add cm _ NegInf = NegInf"

text \<open>
  Division by the length of a non-empty array, a positive integer: the exact quotient of a
  finite number is rounded.
\<close>

fun js_div_length :: "platform \<Rightarrow> jsnum \<Rightarrow> nat \<Rightarrow> jsnum" where
  "js_div_length cm (Num a) n = roundNumber cm (a / real n)"
| "js_div_length cm x n = x"

subsection \<open>Reading numbers\<close>

definition isDigit :: "jschar \<Rightarrow> bool" where
  "isDigit c = (0x30 \<le> c \<and> c \<le> 0x39)"

definition digitsValue :: "jsstring \<Rightarrow> nat" where
  "digitsValue ds = foldl (\<lambda>n c. 10 * n + (unat c - 48)) 0 ds"

definition scale10 :: "real \<Rightarrow> int \<Rightarrow> real" where
  "scale10 x k = (if 0 \<le> k then x * 10 ^ nat k else x / 10 ^ nat (- k))"

text \<open>
  \<open>ExponentPart\<close> at the head of the rest of a literal: \<open>e\<close> or \<open>E\<close>, an optional sign and at
  least one digit. When no exponent part stands there the exponent is 0.
\<close>

definition exponentPart :: "jsstring \<Rightarrow> int" where
  "exponentPart r =
     (case r of
        [] \<Rightarrow> 0
      | c # r' \<Rightarrow>
          if c = 0x65 \<or> c = 0x45 then
            (case r' of
               [] \<Rightarrow> 0
             | d # r'' \<Rightarrow>
                 if d = 0x2B then int (digitsValue (takeWhile isDigit r''))
                 else if d = 0x2D then - int (digitsValue (takeWhile isDigit r''))
                 else int (digitsValue (takeWhile isDigit r')))
          else 0)"

text \<open>
  \<open>parseFloat\<close>: leading white space is skipped and the longest prefix that is a
  \<open>StrDecimalLiteral\<close> is read (a sign, then \<open>Infinity\<close>, or digits with an optional fraction
  and exponent); what follows the prefix is ignored. With no such prefix the result is NaN.
\<close>

definition unsignedLiteral :: "jsstring \<Rightarrow> jsnum" where
  "unsignedLiteral r =
     (if startsWith r (js ''Infinity'') then PosInf
      else
        let ip = takeWhile isDigit r;
            r1 = dropWhile isDigit r;
            fp = (case r1 of [] \<Rightarrow> [] | c # r' \<Rightarrow> if c = 0x2E then takeWhile isDigit r' else []);
            r2 = (case r1 of [] \<Rightarrow> [] | c # r' \<Rightarrow> if c = 0x2E then dropWhile isDigit r' else r1)
        in if ip = [] \<and> fp = [] then NaN
           else Num (scale10 (real (digitsValue (ip @ fp))) (exponentPart r2 - int (length fp))))"

fun js_negate :: "jsnum \<Rightarrow> jsnum" where
  "js_negate (Num a) = Num (- a)"
| "js_negate PosInf = NegInf"
| "js_negate NegInf = PosInf"
| "js_negate NaN = NaN"

definition parseFloat :: "jsstring \<Rightarrow> jsnum" where
  "parseFloat s =
     (case trimStart s of
        [] \<Rightarrow> NaN
      | c # r \<Rightarrow>
          if c = 0x2B then unsignedLiteral r
          else if c = 0x2D then js_negate (unsignedLiteral r)
          else unsignedLiteral (c # r))"

section \<open>The percentage normalizer (DashboardView.tsx)\<close>

text \<open>
  \<open>normalizePercent\<close> is called with a trimmed cell (a string) or with \<open>null\<close>; \<open>None\<close> is
  \<open>null\<close>. For a string, \<open>String(value)\<close> is the string itself.
\<close>

definition normalizePercent :: "jsstring option \<Rightarrow> jsnum option" where
  "normalizePercent v =
     (case v of
        None \<Rightarrow> None
      | Some s \<Rightarrow>
          let cleaned = trim (replaceFirst (js ''%'') [] s) in
          if cleaned = [] then None
          else
            let num = parseFloat (replaceFirst (js '','') (js ''.'') cleaned) in
            if isNaN num then None else Some num)"

text \<open>
  The normalizer as the specification words it: a trailing percent sign and the surrounding
  white space are stripped, a decimal comma becomes a decimal point, and the rest is parsed.
\<close>

definition stripTrailingPercent :: "jsstring \<Rightarrow> jsstring" where
  "stripTrailingPercent s = (if s \<noteq> [] \<and> last s = 0x25 then butlast s else s)"

definition normalizePercent_spec :: "jsstring option \<Rightarrow> jsnum option" where
  "normalizePercent_spec v =
     (case v of
        None \<Rightarrow> None
      | Some s \<Rightarrow>
          let cleaned = trim (stripTrailingPercent (trim s)) in
          if cleaned = [] then None
          else
            let num = parseFloat (replaceFirst (js '','') (js ''.'') cleaned) in
            if isNaN num then None else Some num)"

text \<open>
  What \<open>replace\<close> with a one-character pattern does, said without the scan: the text before
  the first occurrence, the replacement, and the text after it.
\<close>

definition replaceFirstChar :: "jschar \<Rightarrow> jsstring \<Rightarrow> jsstring \<Rightarrow> jsstring" where
  "replaceFirstChar c rep s =
     takeWhile (\<lambda>d. d \<noteq> c) s @
     (case dropWhile (\<lambda>d. d \<noteq> c) s of [] \<Rightarrow> [] | _ # r \<Rightarrow> rep @ r)"

section \<open>The CSV normalizer (DashboardView.tsx)\<close>

record Project =
  CLIENTE :: jsstring
  TIPO_DE_PROJETO :: jsstring
  TIPO_DE_PRODUTO :: jsstring
  BUs :: jsstring
  C_Custo :: jsstring
  STATUS :: jsstring
  perc :: "jsnum option"

text \<open>\<open>normalizeStatus\<close> is called with strings: \<open>!status\<close> holds for the empty string.\<close>

definition normalizeStatus :: "platform \<Rightarrow> jsstring \<Rightarrow> jsstring" where
  "normalizeStatus cm status = (if status = [] then [] else toUpperCase cm (trim status))"

text \<open>
  The parser reports through \<open>alert\<close> and returns the rows. The model returns the alert it
  raised, if any, beside the rows. The first three alerts are the ones the code words as
  an analysis error (\<open>Erro de Analise\<close>), each followed by \<open>return []\<close>; the fourth is the
  notice (\<open>Aviso\<close>) raised when no row survives.
\<close>

datatype alert = ErroCabecalho | ErroVazio | ErroColunas | AvisoSemLinhas

fun isErro :: "alert \<Rightarrow> bool" where
  "isErro AvisoSemLinhas = False"
| "isErro _ = True"

text \<open>\<open>Array.prototype.findIndex\<close>: \<open>None\<close> is the result \<open>-1\<close>.\<close>

fun findIndex :: "('a \<Rightarrow> bool) \<Rightarrow> 'a list \<Rightarrow> nat option" where
  "findIndex P [] = None"
| "findIndex P (x # xs) = (if P x then Some 0 else map_option Suc (findIndex P xs))"

definition stripBOM :: "jsstring \<Rightarrow> jsstring" where
  "stripBOM text = (case text of [] \<Rightarrow> [] | c # r \<Rightarrow> if c = 0xFEFF then r else text)"

definition headerRowIndex :: "platform \<Rightarrow> jsstring list \<Rightarrow> nat option" where
  "headerRowIndex cm allLines =
     findIndex (\<lambda>l. includes_str (toUpperCase cm l) (js ''CLIENTE'')) allLines"

definition usableLines :: "jsstring list \<Rightarrow> nat \<Rightarrow> jsstring list" where
  "usableLines allLines idx =
     filter (\<lambda>l. length (trim (removeAll_char 0x3B l)) > 0) (drop idx allLines)"

definition splitHeaders :: "jsstring \<Rightarrow> jsstring list" where
  "splitHeaders l = map trim (split_char 0x3B l)"

text \<open>The local \<open>findIndex(possibleNames)\<close> of the parser, over the header tokens.\<close>

fun findColumn :: "platform \<Rightarrow> jsstring list \<Rightarrow> jsstring list \<Rightarrow> nat option" where
  "findColumn cm headers [] = None"
| "findColumn cm headers (name # names) =
     (case findIndex (\<lambda>h. toLowerCase cm h = toLowerCase cm name) headers of
        Some idx \<Rightarrow> Some idx
      | None \<Rightarrow> findColumn cm headers names)"

record idxMap =
  idx_cliente :: "nat option"
  idx_tipoProjeto :: "nat option"
  idx_tipoProduto :: "nat option"
  idx_bus :: "nat option"
  idx_cCusto :: "nat option"
  idx_status :: "nat option"
  idx_perc :: "nat option"

definition resolveColumns :: "platform \<Rightarrow> jsstring list \<Rightarrow> idxMap" where
  "resolveColumns cm headers =
     \<lparr> idx_cliente = findColumn cm headers [js ''CLIENTE''],
       idx_tipoProjeto = findColumn cm headers [js ''TIPO DE PROJETO''],
       idx_tipoProduto = findColumn cm headers [js ''TIPO DE PRODUTO''],
       idx_bus = findColumn cm headers [js ''BUs''],
       idx_cCusto = findColumn cm headers [js ''C.Custo''],
       idx_status = findColumn cm headers [js ''STATUS''],
       idx_perc = findColumn cm headers [js ''%''] \<rparr>"

text \<open>\<open>cells[idx]?.trim() || ""\<close>: a cell past the end of the row reads as the empty string.\<close>

definition getCell :: "jsstring list \<Rightarrow> nat \<Rightarrow> jsstring" where
  "getCell cells idx = (if idx < length cells then trim (cells ! idx) else [])"

text \<open>\<open>idx > -1 ? getCell(idx) : ""\<close>\<close>

definition cellOrEmpty :: "jsstring list \<Rightarrow> nat option \<Rightarrow> jsstring" where
  "cellOrEmpty cells idx = (case idx of None \<Rightarrow> [] | Some i \<Rightarrow> getCell cells i)"

text \<open>The body of the row loop: \<open>None\<close> is the \<open>continue\<close> of a row with no identity.\<close>

definition rowOf :: "platform \<Rightarrow> idxMap \<Rightarrow> jsstring \<Rightarrow> Project option" where
  "rowOf cm m line =
     (let cells = split_char 0x3B line;
          cliente = cellOrEmpty cells (idx_cliente m);
          cCusto = cellOrEmpty cells (idx_cCusto m)
      in if cliente = [] \<and> cCusto = [] then None
         else Some \<lparr> CLIENTE = cliente,
                     TIPO_DE_PROJETO = cellOrEmpty cells (idx_tipoProjeto m),
                     TIPO_DE_PRODUTO = cellOrEmpty cells (idx_tipoProduto m),
                     BUs = cellOrEmpty cells (idx_bus m),
                     C_Custo = cCusto,
                     STATUS = normalizeStatus cm (cellOrEmpty cells (idx_status m)),
                     perc = normalizePercent (map_option (getCell cells) (idx_perc m)) \<rparr>)"

text \<open>\<open>for (let i = 1; i < lines.length; i++)\<close>, with \<open>rows\<close> as the accumulator.\<close>

function rowLoop ::
  "platform \<Rightarrow> idxMap \<Rightarrow> jsstring list \<Rightarrow> nat \<Rightarrow> Project list \<Rightarrow> Project list" where
  "rowLoop cm m lines i rows =
     (if i < length lines then
        (case rowOf cm m (lines ! i) of
           None \<Rightarrow> rowLoop cm m lines (i + 1) rows
         | Some r \<Rightarrow> rowLoop cm m lines (i + 1) (rows @ [r]))
      else rows)"
  by pat_completeness auto
termination
  by (relation "measure (\<lambda>(cm, m, lines, i, rows). length lines - i)") auto

definition parseTeleinfoCsv :: "platform \<Rightarrow> jsstring \<Rightarrow> alert option \<times> Project list" where
  "parseTeleinfoCsv cm text =
     (let allLines = splitLines (stripBOM text) in
      case headerRowIndex cm allLines of
        None \<Rightarrow> (Some ErroCabecalho, [])
      | Some headerRow \<Rightarrow>
          let lines = usableLines allLines headerRow in
          if length lines < 2 then (Some ErroVazio, [])
          else
            let headers = splitHeaders (lines ! 0);
                m = resolveColumns cm headers
            in if idx_cliente m = None \<and> idx_cCusto m = None then (Some ErroColunas, [])
               else
                 let rows = rowLoop cm m lines 1 []
                 in (if length rows = 0 then Some AvisoSemLinhas else None, rows))"

text \<open>
  The header tokens the parser works with, when it gets as far as a first usable line:
  the tokens of \<open>lines[0]\<close>.
\<close>

definition csvHeaders :: "platform \<Rightarrow> jsstring \<Rightarrow> jsstring list option" where
  "csvHeaders cm text =
     (let allLines = splitLines (stripBOM text) in
      case headerRowIndex cm allLines of
        None \<Rightarrow> None
      | Some headerRow \<Rightarrow>
          (case usableLines allLines headerRow of
             [] \<Rightarrow> None
           | l # ls \<Rightarrow> Some (splitHeaders l)))"

text \<open>The data lines: the usable lines after \<open>lines[0]\<close>, in the order of the input.\<close>

definition csvDataLines :: "platform \<Rightarrow> jsstring \<Rightarrow> jsstring list" where
  "csvDataLines cm text =
     (let allLines = splitLines (stripBOM text) in
      case headerRowIndex cm allLines of
        None \<Rightarrow> []
      | Some headerRow \<Rightarrow> tl (usableLines allLines headerRow))"

text \<open>
  The columns the parser resolves: those of the header tokens, and none when it has no
  header tokens.
\<close>

definition csvColumns :: "platform \<Rightarrow> jsstring \<Rightarrow> idxMap" where
  "csvColumns cm text =
     resolveColumns cm (case csvHeaders cm text of None \<Rightarrow> [] | Some hs \<Rightarrow> hs)"

section \<open>The status and business-unit classifier (DashboardView.tsx)\<close>

text \<open>
  The keys of the table \<open>statusColors\<close> are five literals (FINALIZADO, EM ANDAMENTO,
  PARALIZADO, NAO INICIADO with a tilde on the A, DEFAULT); the table is a function on them.
\<close>

datatype statusKey = FINALIZADO | EM_ANDAMENTO | PARALIZADO | NAO_INICIADO | DEFAULT

record statusStyle =
  pill :: jsstring
  chart :: jsstring

fun statusColors :: "statusKey \<Rightarrow> statusStyle" where
  "statusColors FINALIZADO =
     \<lparr> pill = js ''bg-green-500/10 text-green-400'', chart = js ''#22c55e'' \<rparr>"
| "statusColors EM_ANDAMENTO =
     \<lparr> pill = js ''bg-blue-500/10 text-blue-400'', chart = js ''#3b82f6'' \<rparr>"
| "statusColors PARALIZADO =
     \<lparr> pill = js ''bg-red-500/10 text-red-400'', chart = js ''#ef4444'' \<rparr>"
| "statusColors NAO_INICIADO =
     \<lparr> pill = js ''bg-yellow-500/10 text-yellow-400'', chart = js ''#eab308'' \<rparr>"
| "statusColors DEFAULT =
     \<lparr> pill = js ''bg-gray-500/10 text-gray-400'', chart = js ''#6b7280'' \<rparr>"

definition getStatusClass :: "platform \<Rightarrow> jsstring \<Rightarrow> jsstring" where
  "getStatusClass cm status =
     (let normalized = normalizeStatus cm status in
      if startsWith normalized (js ''FINALIZADO'') then pill (statusColors FINALIZADO)
      else if startsWith normalized (js ''EM ANDAMENTO'') then pill (statusColors EM_ANDAMENTO)
      else if startsWith normalized (js ''PARALIZADO'') then pill (statusColors PARALIZADO)
      else if startsWith normalized (js ''N'' @ [0xC3] @ js ''O INICIADO'') then pill (statusColors NAO_INICIADO)
      else pill (statusColors DEFAULT))"

definition getStatusChartColor :: "platform \<Rightarrow> jsstring \<Rightarrow> jsstring" where
  "getStatusChartColor cm status =
     (let normalized = normalizeStatus cm status in
      if startsWith normalized (js ''FINALIZADO'') then chart (statusColors FINALIZADO)
      else if startsWith normalized (js ''EM ANDAMENTO'') then chart (statusColors EM_ANDAMENTO)
      else if startsWith normalized (js ''PARALIZADO'') then chart (statusColors PARALIZADO)
      else if startsWith normalized (js ''N'' @ [0xC3] @ js ''O INICIADO'') then chart (statusColors NAO_INICIADO)
      else chart (statusColors DEFAULT))"

definition getBuChartColor :: "platform \<Rightarrow> jsstring \<Rightarrow> jsstring" where
  "getBuChartColor cm bu =
     (let normalized = toUpperCase cm (trim bu) in
      if includes_str normalized (js ''INFRAESTRUTURA'') then js ''#f97316''
      else if includes_str normalized (js ''SEGURAN'' @ [0xC7] @ js ''A'') then js ''#10b981''
      else if includes_str normalized (js ''TI'') then js ''#0b5ed7''
      else if includes_str normalized (js ''AUTOMA'' @ [0xC7, 0xC3] @ js ''O'') then js ''#6b7280''
      else js ''#8b949e'')"

section \<open>Formatting numbers\<close>

fun natToString :: "nat \<Rightarrow> jsstring" where
  "natToString n =
     (if n < 10 then [of_nat (48 + n)]
      else natToString (n div 10) @ [of_nat (48 + n mod 10)])"

declare natToString.simps [simp del]

text \<open>
  \<open>Number.prototype.toFixed(f)\<close>: the sign, then, for an absolute value below \<open>10^21\<close>, the
  integer \<open>n\<close> nearest to \<open>x * 10^f\<close> (the larger of two candidates), written with \<open>f\<close>
  digits after the point. From \<open>10^21\<close> on it is the sign and \<open>ToString\<close> of the absolute
  value.
\<close>

definition toFixed :: "platform \<Rightarrow> jsnum \<Rightarrow> nat \<Rightarrow> jsstring" where
  "toFixed cm x f =
     (case x of
        NaN \<Rightarrow> js ''NaN''
      | PosInf \<Rightarrow> js ''Infinity''
      | NegInf \<Rightarrow> js ''-Infinity''
      | Num r \<Rightarrow>
          let s = (if r < 0 then js ''-'' else []);
              x' = \<bar>r\<bar>
          in if x' \<ge> 10 ^ 21 then s @ numberToString cm x'
             else
               let n = nat \<lfloor>x' * 10 ^ f + 1 / 2\<rfloor>;
                   m = natToString n;
                   padded = replicate (f + 1 - length m) 0x30 @ m;
                   k = length padded
               in if f \<noteq> 0 then s @ take (k - f) padded @ js ''.'' @ drop (k - f) padded
                  else s @ m)"

section \<open>Objects used as counters, and sets\<close>

text \<open>
  An object used as a dictionary of counters is the list of its own properties in the order
  of their creation. \<open>obj[k] = (obj[k] || 0) + 1\<close> creates the property \<open>k\<close> at the end or
  updates it in place. The keys are statuses and business units; a key that names a member
  of \<open>Object.prototype\<close> (\<open>constructor\<close>, \<open>toString\<close>, ...) would read that member, and is
  outside this model.
\<close>

type_synonym counts = "(jsstring \<times> nat) list"

definition increment :: "jsstring \<Rightarrow> counts \<Rightarrow> counts" where
  "increment k obj =
     (case map_of obj k of
        None \<Rightarrow> obj @ [(k, 1)]
      | Some v \<Rightarrow> map (\<lambda>(k', v'). if k' = k then (k', v + 1) else (k', v')) obj)"

text \<open>
  \<open>Object.entries\<close> lists the keys that are array indices first (canonical numerals below
  \<open>2^32 - 1\<close>, in ascending order), then the other keys in the order of their creation.
\<close>

definition arrayIndex :: "jsstring \<Rightarrow> nat option" where
  "arrayIndex k =
     (if k \<noteq> [] \<and> list_all isDigit k \<and> (k = js ''0'' \<or> hd k \<noteq> 0x30) \<and>
         digitsValue k < 4294967295
      then Some (digitsValue k) else None)"

definition Object_entries :: "counts \<Rightarrow> (jsstring \<times> nat) list" where
  "Object_entries obj =
     sort_key (\<lambda>(k, v). case arrayIndex k of Some i \<Rightarrow> i | None \<Rightarrow> 0)
       (filter (\<lambda>(k, v). arrayIndex k \<noteq> None) obj) @
     filter (\<lambda>(k, v). arrayIndex k = None) obj"

text \<open>A \<open>Set\<close> of strings is the list of its members in the order of their insertion.\<close>

definition Set_add :: "jsstring \<Rightarrow> jsstring list \<Rightarrow> jsstring list" where
  "Set_add x s = (if x \<in> set s then s else s @ [x])"

section \<open>The aggregator of the dashboard (DashboardView.tsx)\<close>

record summary =
  total :: nat
  avgPercent :: jsstring
  finished :: nat
  inProgress :: nat
  paralyzed :: nat
  notStarted :: nat

record chartDatum =
  name :: jsstring
  Projetos :: nat
  color :: jsstring

record uniqueFilters =
  statuses :: "jsstring list"
  bus :: "jsstring list"
  clients :: "jsstring list"

record dashboardData =
  summary :: summary
  statusChartData :: "chartDatum list"
  buChartData :: "chartDatum list"
  uniqueFilters :: uniqueFilters

definition filteredProjects ::
  "Project list \<Rightarrow> jsstring \<Rightarrow> jsstring \<Rightarrow> jsstring \<Rightarrow> Project list" where
  "filteredProjects projects statusFilter buFilter clientFilter =
     filter (\<lambda>p.
        (if statusFilter \<noteq> [] then STATUS p = statusFilter else True) \<and>
        (if buFilter \<noteq> [] then BUs p = buFilter else True) \<and>
        (if clientFilter \<noteq> [] then CLIENTE p = clientFilter else True)) projects"

text \<open>The three sets filled by \<open>projects.forEach\<close>.\<close>

definition collectFilters :: "Project \<Rightarrow> uniqueFilters \<Rightarrow> uniqueFilters" where
  "collectFilters p u =
     (let u1 = (if STATUS p \<noteq> [] then u\<lparr>statuses := Set_add (STATUS p) (statuses u)\<rparr> else u);
          u2 = (if BUs p \<noteq> [] then u1\<lparr>bus := Set_add (BUs p) (bus u1)\<rparr> else u1)
      in if CLIENTE p \<noteq> [] then u2\<lparr>clients := Set_add (CLIENTE p) (clients u2)\<rparr> else u2)"

text \<open>
  The local variables that \<open>data.forEach\<close> updates: four counters and two dictionaries.
  The same variables stand in the loop of the presentation.
\<close>

record tally =
  n_finished :: nat
  n_inProgress :: nat
  n_paralyzed :: nat
  n_notStarted :: nat
  statusCounts :: counts
  buCounts :: counts

definition tally0 :: tally where
  "tally0 = \<lparr> n_finished = 0, n_inProgress = 0, n_paralyzed = 0, n_notStarted = 0,
              statusCounts = [], buCounts = [] \<rparr>"

definition tallyProject :: "Project \<Rightarrow> tally \<Rightarrow> tally" where
  "tallyProject p t =
     (let s = STATUS p;
          t1 = (if startsWith s (js ''FINALIZADO'') then t\<lparr>n_finished := n_finished t + 1\<rparr>
                else if startsWith s (js ''EM ANDAMENTO'') then t\<lparr>n_inProgress := n_inProgress t + 1\<rparr>
                else if startsWith s (js ''PARALIZADO'') then t\<lparr>n_paralyzed := n_paralyzed t + 1\<rparr>
                else if startsWith s (js ''N'' @ [0xC3] @ js ''O INICIADO'') then t\<lparr>n_notStarted := n_notStarted t + 1\<rparr>
                else t);
          status = (if s \<noteq> [] then s else js ''N/A'');
          t2 = t1\<lparr>statusCounts := increment status (statusCounts t1)\<rparr>;
          bu = (if BUs p \<noteq> [] then BUs p else js ''N/A'')
      in t2\<lparr>buCounts := increment bu (buCounts t2)\<rparr>)"

text \<open>
  \<open>data.map(p => p.perc).filter(v => typeof v === 'number')\<close>, then the mean by \<open>reduce\<close>.
\<close>

definition percValues :: "Project list \<Rightarrow> jsnum list" where
  "percValues data = map the (filter (\<lambda>v. v \<noteq> None) (map perc data))"

definition avg :: "platform \<Rightarrow> Project list \<Rightarrow> jsnum" where
  "avg cm data =
     (let vs = percValues data in
      if length vs \<noteq> 0
      then js_div_length cm (foldl (\<lambda>a b. js_add cm a b) (Num 0) vs) (length vs)
      else Num 0)"

definition dashboardMemo :: "platform \<Rightarrow> Project list \<Rightarrow> Project list \<Rightarrow> dashboardData" where
  "dashboardMemo cm data projects =
     (let sets = fold collectFilters projects \<lparr> statuses = [], bus = [], clients = [] \<rparr>;
          t = fold tallyProject data tally0
      in \<lparr> summary =
             \<lparr> total = length data,
               avgPercent = toFixed cm (avg cm data) 1 @ js ''%'',
               finished = n_finished t,
               inProgress = n_inProgress t,
               paralyzed = n_paralyzed t,
               notStarted = n_notStarted t \<rparr>,
           statusChartData =
             map (\<lambda>(k, v). \<lparr> name = k, Projetos = v, color = getStatusChartColor cm k \<rparr>)
               (Object_entries (statusCounts t)),
           buChartData =
             map (\<lambda>(k, v). \<lparr> name = k, Projetos = v, color = getBuChartColor cm k \<rparr>)
               (Object_entries (buCounts t)),
           uniqueFilters =
             \<lparr> statuses = sort (statuses sets),
               bus = sort (bus sets),
               clients = sort (clients sets) \<rparr> \<rparr>)"

text \<open>The view: the memo on the filtered projects and on the whole collection.\<close>

definition dashboardView ::
  "platform \<Rightarrow> Project list \<Rightarrow> jsstring \<Rightarrow> jsstring \<Rightarrow> jsstring \<Rightarrow> dashboardData" where
  "dashboardView cm projects statusFilter buFilter clientFilter =
     dashboardMemo cm (filteredProjects projects statusFilter buFilter clientFilter) projects"

section \<open>The portfolio summary of the presentation (PresentationView.tsx)\<close>

text \<open>
  PresentationView.tsx has its own copies of the table, of the classifier and of the
  aggregation. They are translated from that file, under names that end in \<open>_P\<close>.
\<close>

fun statusColors_P :: "statusKey \<Rightarrow> statusStyle" where
  "statusColors_P FINALIZADO =
     \<lparr> pill = js ''bg-green-500/10 text-green-400'', chart = js ''#22c55e'' \<rparr>"
| "statusColors_P EM_ANDAMENTO =
     \<lparr> pill = js ''bg-blue-500/10 text-blue-400'', chart = js ''#3b82f6'' \<rparr>"
| "statusColors_P PARALIZADO =
     \<lparr> pill = js ''bg-red-500/10 text-red-400'', chart = js ''#ef4444'' \<rparr>"
| "statusColors_P NAO_INICIADO =
     \<lparr> pill = js ''bg-yellow-500/10 text-yellow-400'', chart = js ''#eab308'' \<rparr>"
| "statusColors_P DEFAULT =
     \<lparr> pill = js ''bg-gray-500/10 text-gray-400'', chart = js ''#6b7280'' \<rparr>"

definition normalizeStatus_P :: "platform \<Rightarrow> jsstring \<Rightarrow> jsstring" where
  "normalizeStatus_P cm status = (if status = [] then [] else toUpperCase cm (trim status))"

definition getStatusChartColor_P :: "platform \<Rightarrow> jsstring \<Rightarrow> jsstring" where
  "getStatusChartColor_P cm status =
     (let normalized = normalizeStatus_P cm status in
      if startsWith normalized (js ''FINALIZADO'') then chart (statusColors_P FINALIZADO)
      else if startsWith normalized (js ''EM ANDAMENTO'') then chart (statusColors_P EM_ANDAMENTO)
      else if startsWith normalized (js ''PARALIZADO'') then chart (statusColors_P PARALIZADO)
      else if startsWith normalized (js ''N'' @ [0xC3] @ js ''O INICIADO'')
        then chart (statusColors_P NAO_INICIADO)
      else chart (statusColors_P DEFAULT))"

definition getBuChartColor_P :: "platform \<Rightarrow> jsstring \<Rightarrow> jsstring" where
  "getBuChartColor_P cm bu =
     (let normalized = toUpperCase cm (trim bu) in
      if includes_str normalized (js ''INFRAESTRUTURA'') then js ''#f97316''
      else if includes_str normalized (js ''SEGURAN'' @ [0xC7] @ js ''A'') then js ''#10b981''
      else if includes_str normalized (js ''TI'') then js ''#0b5ed7''
      else if includes_str normalized (js ''AUTOMA'' @ [0xC7, 0xC3] @ js ''O'') then js ''#6b7280''
      else js ''#8b949e'')"

record portfolio = summary +
  statusChartData_P :: "chartDatum list"
  buChartData_P :: "chartDatum list"

definition tallyProject_P :: "Project \<Rightarrow> tally \<Rightarrow> tally" where
  "tallyProject_P p t =
     (let s = STATUS p;
          t1 = (if startsWith s (js ''FINALIZADO'') then t\<lparr>n_finished := n_finished t + 1\<rparr>
                else if startsWith s (js ''EM ANDAMENTO'') then t\<lparr>n_inProgress := n_inProgress t + 1\<rparr>
                else if startsWith s (js ''PARALIZADO'') then t\<lparr>n_paralyzed := n_paralyzed t + 1\<rparr>
                else if startsWith s (js ''N'' @ [0xC3] @ js ''O INICIADO'')
                  then t\<lparr>n_notStarted := n_notStarted t + 1\<rparr>
                else t);
          status = (if s \<noteq> [] then s else js ''N/A'');
          t2 = t1\<lparr>statusCounts := increment status (statusCounts t1)\<rparr>;
          bu = (if BUs p \<noteq> [] then BUs p else js ''N/A'')
      in t2\<lparr>buCounts := increment bu (buCounts t2)\<rparr>)"

definition percValues_P :: "Project list \<Rightarrow> jsnum list" where
  "percValues_P data = map the (filter (\<lambda>v. v \<noteq> None) (map perc data))"

definition avg_P :: "platform \<Rightarrow> Project list \<Rightarrow> jsnum" where
  "avg_P cm data =
     (let vs = percValues_P data in
      if length vs \<noteq> 0
      then js_div_length cm (foldl (\<lambda>a b. js_add cm a b) (Num 0) vs) (length vs)
      else Num 0)"

definition portfolioSummary :: "platform \<Rightarrow> Project list \<Rightarrow> portfolio" where
  "portfolioSummary cm allProjects =
     (let data = allProjects;
          t = fold tallyProject_P data
                \<lparr> n_finished = 0, n_inProgress = 0, n_paralyzed = 0, n_notStarted = 0,
                  statusCounts = [], buCounts = [] \<rparr>
      in \<lparr> total = length data,
           avgPercent = toFixed cm (avg_P cm data) 1 @ js ''%'',
           finished = n_finished t,
           inProgress = n_inProgress t,
           paralyzed = n_paralyzed t,
           notStarted = n_notStarted t,
           statusChartData_P =
             map (\<lambda>(k, v). \<lparr> name = k, Projetos = v, color = getStatusChartColor_P cm k \<rparr>)
               (Object_entries (statusCounts t)),
           buChartData_P =
             map (\<lambda>(k, v). \<lparr> name = k, Projetos = v, color = getBuChartColor_P cm k \<rparr>)
               (Object_entries (buCounts t)) \<rparr>)"

section \<open>Detailed projects: steps, timeline and hours\<close>

text \<open>
  The numbers of a detailed project come from the edit form, which clamps a percentage to
  0..100 and replaces a negative number of hours by 0. They are finite, and are modelled as
  reals; rounding to binary64 is not modelled. Times are the milliseconds of \<open>getTime()\<close>.
\<close>

record DetailedProjectStep =
  step_name :: jsstring
  step_perc :: real

subsection \<open>Overall progress, in its three places\<close>

text \<open>MonitoringView (App.tsx): \<open>overallProgress\<close>.\<close>

definition overallProgress_Monitoring :: "DetailedProjectStep list \<Rightarrow> real" where
  "overallProgress_Monitoring steps =
     (let validSteps = filter (\<lambda>s. trim (step_name s) \<noteq> []) steps in
      if length validSteps = 0 then 0
      else
        let total = foldl (\<lambda>acc step. acc + step_perc step) 0 validSteps
        in total / real (length validSteps))"

text \<open>PresentationView.tsx: \<open>overallProgress\<close> of a slide.\<close>

definition overallProgress_Presentation :: "DetailedProjectStep list \<Rightarrow> real" where
  "overallProgress_Presentation steps =
     (if length steps > 0
      then foldl (\<lambda>acc s. acc + step_perc s) 0 steps / real (length steps)
      else 0)"

text \<open>The prompt builder \<open>generateDetailedProjectRiskAnalysis\<close>: \<open>overallProgress\<close>.\<close>

definition overallProgress_RiskAnalysis :: "DetailedProjectStep list \<Rightarrow> real" where
  "overallProgress_RiskAnalysis steps =
     (if length steps > 0
      then foldl (\<lambda>acc s. acc + step_perc s) 0 steps / real (length steps)
      else 0)"

subsection \<open>Timeline (PresentationView.tsx)\<close>

text \<open>
  \<open>startDate\<close> and \<open>endDate\<close> are \<open>null\<close> (\<open>None\<close>) when the project has no date, and a
  \<open>Date\<close> object otherwise, which is invalid when the text is no date: its time is NaN and
  every comparison with it is false. \<open>today\<close> is always a valid date.
\<close>

datatype jsdate = Date int | InvalidDate

record timelineInfo =
  progress :: real
  timelineText :: jsstring

definition intToString :: "int \<Rightarrow> jsstring" where
  "intToString n = (if n < 0 then js ''-'' @ natToString (nat (- n)) else natToString (nat n))"

definition oneDay :: int where
  "oneDay = 1000 * 60 * 60 * 24"

definition timeline :: "int \<Rightarrow> jsdate option \<Rightarrow> jsdate option \<Rightarrow> timelineInfo" where
  "timeline today startDate endDate =
     (case (startDate, endDate) of
        (Some (Date start), Some (Date end')) \<Rightarrow>
          if start \<le> end' then
            let totalDuration = end' - start;
                elapsedDuration = today - start;
                progress =
                  (if totalDuration > 0
                   then max 0 (min 100 ((real_of_int elapsedDuration / real_of_int totalDuration) * 100))
                   else (if today \<ge> end' then 100 else 0));
                remainingDays = \<lceil>real_of_int (end' - today) / real_of_int oneDay\<rceil>;
                text' =
                  (if today > end' then
                     (let daysPast = \<bar>remainingDays\<bar> in
                      if daysPast = 0 then js ''Finaliza hoje''
                      else js ''Finalizado h'' @ [0xE1] @ js '' '' @ intToString daysPast @
                           js '' dia'' @ (if daysPast > 1 then js ''s'' else []))
                   else if today < start then
                     (let daysToStart = \<lceil>real_of_int (start - today) / real_of_int oneDay\<rceil> in
                      js ''Inicia em '' @ intToString daysToStart @
                      js '' dia'' @ (if daysToStart > 1 then js ''s'' else []))
                   else
                     (if remainingDays = 0 then js ''Finaliza hoje''
                      else js ''Faltam '' @ intToString remainingDays @
                           js '' dia'' @ (if remainingDays > 1 then js ''s'' else [])))
            in \<lparr> progress = progress, timelineText = text' \<rparr>
          else \<lparr> progress = 0, timelineText = js ''Datas n'' @ [0xE3] @ js ''o definidas'' \<rparr>
      | _ \<Rightarrow> \<lparr> progress = 0, timelineText = js ''Datas n'' @ [0xE3] @ js ''o definidas'' \<rparr>)"

subsection \<open>Hours sold and used (PresentationView.tsx)\<close>

record BuHours =
  infra :: real
  sse :: real
  ti :: real
  aut :: real

record hoursEntry =
  bu_name :: jsstring
  Vendidas :: real
  Utilizadas :: real

text \<open>\<open>Object.keys(proj.soldHours)\<close> lists the four buckets in the order of the type.\<close>

definition hoursComparisonData :: "BuHours \<Rightarrow> BuHours \<Rightarrow> hoursEntry list" where
  "hoursComparisonData soldHours usedHours =
     [ \<lparr> bu_name = js ''Infra'', Vendidas = infra soldHours, Utilizadas = infra usedHours \<rparr>,
       \<lparr> bu_name = js ''Seguran'' @ [0xE7] @ js ''a'', Vendidas = sse soldHours, Utilizadas = sse usedHours \<rparr>,
       \<lparr> bu_name = js ''TI'', Vendidas = ti soldHours, Utilizadas = ti usedHours \<rparr>,
       \<lparr> bu_name = js ''Automa'' @ [0xE7, 0xE3] @ js ''o'', Vendidas = aut soldHours, Utilizadas = aut usedHours \<rparr> ]"

text \<open>The fill of one cell of the bar of used hours.\<close>

definition cellColor :: "hoursEntry \<Rightarrow> jsstring" where
  "cellColor entry =
     (let sold = Vendidas entry;
          used = Utilizadas entry
      in if sold > 0 then
           (if used > sold then js ''#ef4444''
            else if used / sold \<ge> 0.8 then js ''#eab308''
            else js ''#f97316'')
         else js ''#f97316'')"

section \<open>Notions of the specification\<close>

text \<open>The arithmetic mean of a list of numbers, 0 for the empty list.\<close>

definition mean :: "real list \<Rightarrow> real" where
  "mean xs = (if xs = [] then 0 else sum_list xs / real (length xs))"

text \<open>The four canonical labels, as texts; DEFAULT is the name of the fallback.\<close>

fun label :: "statusKey \<Rightarrow> jsstring" where
  "label FINALIZADO = js ''FINALIZADO''"
| "label EM_ANDAMENTO = js ''EM ANDAMENTO''"
| "label PARALIZADO = js ''PARALIZADO''"
| "label NAO_INICIADO = js ''N'' @ [0xC3] @ js ''O INICIADO''"
| "label DEFAULT = js ''DEFAULT''"

text \<open>
  The canonical bucket of a normalized status: the first of the four labels, in the order
  FINALIZADO, EM ANDAMENTO, PARALIZADO, NAO INICIADO (A with tilde), that is a prefix of the text, and
  DEFAULT when none is.
\<close>

definition canonicalBucket :: "jsstring \<Rightarrow> statusKey" where
  "canonicalBucket n =
     (case find (\<lambda>k. prefix (label k) n) [FINALIZADO, EM_ANDAMENTO, PARALIZADO, NAO_INICIADO] of
        Some k \<Rightarrow> k
      | None \<Rightarrow> DEFAULT)"


section \<open>Evaluation\<close>

lemmas string_defs = js_def trim_def trimStart_def isWhiteSpace_def startsWith_def

lemmas number_defs = parseFloat_def unsignedLiteral_def isDigit_def digitsValue_def scale10_def
  exponentPart_def

section \<open>C1: the percentage normalizer\<close>

lemma replaceFirst_single: "replaceFirst [c] rep s = replaceFirstChar c rep s"
  by (induction s) (auto simp: replaceFirstChar_def startsWith_def)

text \<open>
  C1, as stated, fails. The code removes the first percent sign of the text wherever it
  stands, not a trailing one: on \<open>4%5\<close> the code reads 45, while stripping a trailing percent
  sign leaves \<open>4%5\<close>, of which 4 is read.
\<close>

theorem normalizePercent_counterexample:
  "normalizePercent (Some (js ''4%5'')) = Some (Num 45) \<and>
   normalizePercent_spec (Some (js ''4%5'')) = Some (Num 4) \<and>
   normalizePercent (Some (js ''4%5'')) \<noteq> normalizePercent_spec (Some (js ''4%5''))"
  by (simp add: string_defs number_defs normalizePercent_def normalizePercent_spec_def
      stripTrailingPercent_def Let_def)

text \<open>
  C1, amended: the normalizer maps \<open>null\<close> to \<open>null\<close>; otherwise it removes the first percent
  sign of the text (wherever it stands) and the surrounding white space, returns \<open>null\<close> when
  nothing is left, replaces the first comma by a point, reads the text with \<open>parseFloat\<close>
  and returns \<open>null\<close> for NaN, else the number, which is not clamped to 0..100. The seven
  examples of the specification hold, and 150 and -5 are returned as they are.
\<close>

theorem normalizePercent_first_percent:
  "normalizePercent None = None \<and>
   normalizePercent (Some s) =
     (let cleaned = trim (replaceFirstChar 0x25 [] s) in
      if cleaned = [] then None
      else case parseFloat (replaceFirstChar 0x2C [0x2E] cleaned) of
             NaN \<Rightarrow> None
           | n \<Rightarrow> Some n) \<and>
   normalizePercent (Some (js ''45%'')) = Some (Num 45) \<and>
   normalizePercent (Some (js ''45,5'')) = Some (Num 45.5) \<and>
   normalizePercent (Some (js ''45.5'')) = Some (Num 45.5) \<and>
   normalizePercent (Some (js '' 45 '')) = Some (Num 45) \<and>
   normalizePercent (Some (js '''')) = None \<and>
   normalizePercent (Some (js ''abc%'')) = None \<and>
   normalizePercent (Some (js ''150%'')) = Some (Num 150) \<and>
   normalizePercent (Some (js ''-5'')) = Some (Num (- 5))"
proof -
  have general: "normalizePercent (Some s) =
     (let cleaned = trim (replaceFirstChar 0x25 [] s) in
      if cleaned = [] then None
      else case parseFloat (replaceFirstChar 0x2C [0x2E] cleaned) of
             NaN \<Rightarrow> None
           | n \<Rightarrow> Some n)"
    unfolding normalizePercent_def js_def
    by (simp add: replaceFirst_single Let_def split: jsnum.splits)
  have examples:
    "normalizePercent (Some (js ''45%'')) = Some (Num 45)"
    "normalizePercent (Some (js ''45,5'')) = Some (Num 45.5)"
    "normalizePercent (Some (js ''45.5'')) = Some (Num 45.5)"
    "normalizePercent (Some (js '' 45 '')) = Some (Num 45)"
    "normalizePercent (Some (js '''')) = None"
    "normalizePercent (Some (js ''abc%'')) = None"
    "normalizePercent (Some (js ''150%'')) = Some (Num 150)"
    "normalizePercent (Some (js ''-5'')) = Some (Num (- 5))"
    by (simp_all add: string_defs number_defs normalizePercent_def Let_def)
  have "normalizePercent None = None"
    by (simp add: normalizePercent_def)
  with general examples show ?thesis by blast
qed

section \<open>C2: overall progress of the steps\<close>

lemma foldl_add_sum: "foldl (\<lambda>acc s. acc + f s) a xs = (a::real) + sum_list (map f xs)"
  by (induction xs arbitrary: a) simp_all

text \<open>
  On the presentation slide and in the prompt builder the overall progress is the
  arithmetic mean of the percentages of all the steps, and 0 when there is no step.
\<close>

lemma overallProgress_all_steps:
  "overallProgress_Presentation steps = mean (map step_perc steps) \<and>
   overallProgress_RiskAnalysis steps = mean (map step_perc steps) \<and>
   overallProgress_Presentation [] = 0 \<and>
   overallProgress_RiskAnalysis [] = 0"
  by (simp add: overallProgress_Presentation_def overallProgress_RiskAnalysis_def mean_def
      foldl_add_sum)

text \<open>The monitoring view takes the mean over the steps whose trimmed name is not empty.\<close>

lemma overallProgress_named_steps:
  "overallProgress_Monitoring steps =
     mean (map step_perc (filter (\<lambda>s. trim (step_name s) \<noteq> []) steps))"
  by (simp add: overallProgress_Monitoring_def mean_def foldl_add_sum Let_def)

text \<open>
  C2: the overall progress is the mean of the percentages of all the steps in every place
  that computes it. The monitoring view breaks this: for a project with a step of empty
  name at 0 and a step \<open>A\<close> at 100, it shows 100, while the presentation slide and the
  prompt builder, which the monitoring view itself calls for the same project, compute 50,
  the mean of all the steps.
\<close>

theorem overallProgress_monitoring_divergence:
  "overallProgress_Monitoring
     [\<lparr> step_name = js '''', step_perc = 0 \<rparr>, \<lparr> step_name = js ''A'', step_perc = 100 \<rparr>] = 100 \<and>
   overallProgress_Presentation
     [\<lparr> step_name = js '''', step_perc = 0 \<rparr>, \<lparr> step_name = js ''A'', step_perc = 100 \<rparr>] = 50 \<and>
   overallProgress_RiskAnalysis
     [\<lparr> step_name = js '''', step_perc = 0 \<rparr>, \<lparr> step_name = js ''A'', step_perc = 100 \<rparr>] = 50 \<and>
   mean (map step_perc
     [\<lparr> step_name = js '''', step_perc = 0 \<rparr>, \<lparr> step_name = js ''A'', step_perc = 100 \<rparr>]) = 50"
  by (simp add: overallProgress_Monitoring_def overallProgress_Presentation_def
      overallProgress_RiskAnalysis_def mean_def string_defs)

section \<open>C3: the elapsed fraction of the timeline\<close>

text \<open>
  C3: with both dates present and \<open>start \<le> end\<close>, the elapsed fraction is
  \<open>(today - start) / (end - start)\<close> as a percentage, clamped to 0..100 (so it is the
  fraction itself between the two dates); for an interval of zero duration it is 100 when
  \<open>today \<ge> end\<close> and 0 otherwise, and it is 100 when today is the shared date.
\<close>

theorem timeline_progress:
  assumes "start \<le> end'"
  shows
  "(start < end' \<longrightarrow>
      progress (timeline today (Some (Date start)) (Some (Date end'))) =
        max 0 (min 100 (real_of_int (today - start) / real_of_int (end' - start) * 100))) \<and>
   (start < end' \<and> start \<le> today \<and> today \<le> end' \<longrightarrow>
      progress (timeline today (Some (Date start)) (Some (Date end'))) =
        real_of_int (today - start) / real_of_int (end' - start) * 100) \<and>
   (start = end' \<and> end' \<le> today \<longrightarrow>
      progress (timeline today (Some (Date start)) (Some (Date end'))) = 100) \<and>
   (start = end' \<and> today < end' \<longrightarrow>
      progress (timeline today (Some (Date start)) (Some (Date end'))) = 0) \<and>
   0 \<le> progress (timeline today (Some (Date start)) (Some (Date end'))) \<and>
   progress (timeline today (Some (Date start)) (Some (Date end'))) \<le> 100 \<and>
   progress (timeline start (Some (Date start)) (Some (Date start))) = 100"
proof -
  let ?p = "progress (timeline today (Some (Date start)) (Some (Date end')))"
  have eq: "?p = (if end' - start > 0
       then max 0 (min 100 ((real_of_int (today - start) / real_of_int (end' - start)) * 100))
       else (if today \<ge> end' then 100 else 0))"
    using assms by (simp add: timeline_def Let_def)
  have inside: "real_of_int (today - start) / real_of_int (end' - start) * 100 \<le> 100"
               "0 \<le> real_of_int (today - start) / real_of_int (end' - start) * 100"
    if "start < end'" "start \<le> today" "today \<le> end'"
  proof -
    define q where "q = real_of_int (today - start) / real_of_int (end' - start)"
    have "q \<le> 1" "0 \<le> q"
      using that by (simp_all add: q_def divide_le_eq)
    then have "q * 100 \<le> 100" "0 \<le> q * 100" by linarith+
    then show "real_of_int (today - start) / real_of_int (end' - start) * 100 \<le> 100"
      "0 \<le> real_of_int (today - start) / real_of_int (end' - start) * 100"
      by (simp_all only: q_def)
  qed
  have same: "progress (timeline start (Some (Date start)) (Some (Date start))) = 100"
    by (simp add: timeline_def Let_def)
  show ?thesis using eq inside same assms by (auto simp: max_def min_def)
qed

text \<open>
  From 2024-01-01 to 2024-01-11 (as milliseconds of midnight), on 2024-01-06: 50 percent.
  A project that starts and ends on 2024-01-01: 100 percent on that day, 0 the millisecond
  before.
\<close>

theorem timeline_progress_witness:
  "progress (timeline 1704499200000 (Some (Date 1704067200000)) (Some (Date 1704931200000))) = 50 \<and>
   progress (timeline 1704067200000 (Some (Date 1704067200000)) (Some (Date 1704067200000))) = 100 \<and>
   progress (timeline 1704067199999 (Some (Date 1704067200000)) (Some (Date 1704067200000))) = 0"
  using timeline_progress [of 1704067200000 1704931200000 1704499200000]
    timeline_progress [of 1704067200000 1704067200000 1704067200000]
    timeline_progress [of 1704067200000 1704067200000 1704067199999]
  by simp

lemma timeline_text_example:
  "timelineText (timeline 1704499200000 (Some (Date 1704067200000)) (Some (Date 1704931200000))) =
     js ''Faltam 5 dias''"
  by (simp add: timeline_def Let_def oneDay_def intToString_def js_def natToString.simps)

section \<open>C4: the colour of the used hours\<close>

text \<open>
  C4: for a bucket with \<open>sold > 0\<close> the colour is the one of \<open>exceeded\<close> (\<open>#ef4444\<close>) exactly
  when \<open>used > sold\<close>, else the one of \<open>at risk\<close> (\<open>#eab308\<close>) exactly when
  \<open>used / sold \<ge> 0.8\<close>, else the normal one (\<open>#f97316\<close>); with \<open>sold = 0\<close> (or below) it is the
  normal one whatever \<open>used\<close> is. With 100 sold and 100 used it is the one of \<open>at risk\<close>.
  Each of the four buckets of a project is coloured this way.
\<close>

theorem cellColor_risk:
  "(0 < Vendidas e \<longrightarrow>
      (cellColor e = js ''#ef4444'') = (Vendidas e < Utilizadas e) \<and>
      (cellColor e = js ''#eab308'') =
         (Utilizadas e \<le> Vendidas e \<and> 0.8 \<le> Utilizadas e / Vendidas e) \<and>
      (cellColor e = js ''#f97316'') =
         (Utilizadas e \<le> Vendidas e \<and> Utilizadas e / Vendidas e < 0.8)) \<and>
   (Vendidas e \<le> 0 \<longrightarrow> cellColor e = js ''#f97316'') \<and>
   cellColor \<lparr> bu_name = n, Vendidas = 100, Utilizadas = 100 \<rparr> = js ''#eab308'' \<and>
   cellColor \<lparr> bu_name = n, Vendidas = 100, Utilizadas = 100 \<rparr> \<noteq> js ''#ef4444'' \<and>
   map cellColor (hoursComparisonData sold used) =
     map (\<lambda>(s, u). cellColor \<lparr> bu_name = [], Vendidas = s, Utilizadas = u \<rparr>)
       [(infra sold, infra used), (sse sold, sse used), (ti sold, ti used), (aut sold, aut used)]"
  by (simp add: cellColor_def Let_def js_def hoursComparisonData_def)

text \<open>100 sold with 120, 80 and 79 used, and nothing sold with 5 used.\<close>

theorem cellColor_risk_witness:
  "cellColor \<lparr> bu_name = js ''TI'', Vendidas = 100, Utilizadas = 120 \<rparr> = js ''#ef4444'' \<and>
   cellColor \<lparr> bu_name = js ''TI'', Vendidas = 100, Utilizadas = 80 \<rparr> = js ''#eab308'' \<and>
   cellColor \<lparr> bu_name = js ''TI'', Vendidas = 100, Utilizadas = 79 \<rparr> = js ''#f97316'' \<and>
   cellColor \<lparr> bu_name = js ''TI'', Vendidas = 0, Utilizadas = 5 \<rparr> = js ''#f97316''"
  using cellColor_risk [of "\<lparr> bu_name = js ''TI'', Vendidas = 100, Utilizadas = 120 \<rparr>"]
    cellColor_risk [of "\<lparr> bu_name = js ''TI'', Vendidas = 100, Utilizadas = 80 \<rparr>"]
    cellColor_risk [of "\<lparr> bu_name = js ''TI'', Vendidas = 100, Utilizadas = 79 \<rparr>"]
    cellColor_risk [of "\<lparr> bu_name = js ''TI'', Vendidas = 0, Utilizadas = 5 \<rparr>"]
  by simp

section \<open>C5: the status classifier\<close>

lemma startsWith_prefix: "startsWith s p = prefix p s"
  unfolding startsWith_def
  by (metis append_take_drop_id take_is_prefix prefix_def append_eq_conv_conj)

lemma canonicalBucket_unfold:
  "canonicalBucket n =
     (if startsWith n (label FINALIZADO) then FINALIZADO
      else if startsWith n (label EM_ANDAMENTO) then EM_ANDAMENTO
      else if startsWith n (label PARALIZADO) then PARALIZADO
      else if startsWith n (label NAO_INICIADO) then NAO_INICIADO
      else DEFAULT)"
  unfolding canonicalBucket_def startsWith_prefix by simp

lemma tallyProject_counters:
  "n_finished (tallyProject p t) = n_finished t + (if canonicalBucket (STATUS p) = FINALIZADO then 1 else 0)"
  "n_inProgress (tallyProject p t) = n_inProgress t + (if canonicalBucket (STATUS p) = EM_ANDAMENTO then 1 else 0)"
  "n_paralyzed (tallyProject p t) = n_paralyzed t + (if canonicalBucket (STATUS p) = PARALIZADO then 1 else 0)"
  "n_notStarted (tallyProject p t) = n_notStarted t + (if canonicalBucket (STATUS p) = NAO_INICIADO then 1 else 0)"
  unfolding tallyProject_def canonicalBucket_unfold Let_def by simp_all

lemma fold_tallyProject_counters:
  "n_finished (fold tallyProject data t) =
     n_finished t + length (filter (\<lambda>p. canonicalBucket (STATUS p) = FINALIZADO) data)"
  "n_inProgress (fold tallyProject data t) =
     n_inProgress t + length (filter (\<lambda>p. canonicalBucket (STATUS p) = EM_ANDAMENTO) data)"
  "n_paralyzed (fold tallyProject data t) =
     n_paralyzed t + length (filter (\<lambda>p. canonicalBucket (STATUS p) = PARALIZADO) data)"
  "n_notStarted (fold tallyProject data t) =
     n_notStarted t + length (filter (\<lambda>p. canonicalBucket (STATUS p) = NAO_INICIADO) data)"
  by (induction data arbitrary: t) (simp_all add: tallyProject_counters)

text \<open>
  C5: the chart colour and the badge style of a status are those of the canonical bucket of
  its normalized text, and the four counters of the summary count the records by the
  canonical bucket of their status, which the parser stores normalized. The bucket is
  found by prefix match in the order FINALIZADO, EM ANDAMENTO, PARALIZADO, NAO INICIADO,
  with DEFAULT as the fallback. The status \<open>PARALIZADO - AGUARDANDO CLIENTE\<close> is in the
  bucket PARALIZADO: a record with this status is counted as paralyzed, and the status is
  drawn in the colour of PARALIZADO by any case mapping that leaves this upper-case text as
  it is.
\<close>

theorem status_prefix_classifier:
  "getStatusChartColor cm s = chart (statusColors (canonicalBucket (normalizeStatus cm s))) \<and>
   getStatusClass cm s = pill (statusColors (canonicalBucket (normalizeStatus cm s))) \<and>
   finished (summary (dashboardMemo cm data projects)) =
     length (filter (\<lambda>p. canonicalBucket (STATUS p) = FINALIZADO) data) \<and>
   inProgress (summary (dashboardMemo cm data projects)) =
     length (filter (\<lambda>p. canonicalBucket (STATUS p) = EM_ANDAMENTO) data) \<and>
   paralyzed (summary (dashboardMemo cm data projects)) =
     length (filter (\<lambda>p. canonicalBucket (STATUS p) = PARALIZADO) data) \<and>
   notStarted (summary (dashboardMemo cm data projects)) =
     length (filter (\<lambda>p. canonicalBucket (STATUS p) = NAO_INICIADO) data) \<and>
   (rowOf cm m line = Some p \<longrightarrow>
      STATUS p = normalizeStatus cm (cellOrEmpty (split_char 0x3B line) (idx_status m))) \<and>
   canonicalBucket (js ''PARALIZADO - AGUARDANDO CLIENTE'') = PARALIZADO \<and>
   paralyzed (summary (dashboardMemo cm
      [q\<lparr>STATUS := js ''PARALIZADO - AGUARDANDO CLIENTE''\<rparr>] projects)) = 1 \<and>
   (toUpperCase cm (js ''PARALIZADO - AGUARDANDO CLIENTE'') = js ''PARALIZADO - AGUARDANDO CLIENTE'' \<longrightarrow>
      getStatusChartColor cm (js ''PARALIZADO - AGUARDANDO CLIENTE'') = chart (statusColors PARALIZADO))"
proof -
  have c1: "getStatusChartColor cm s = chart (statusColors (canonicalBucket (normalizeStatus cm s)))" for s
    unfolding getStatusChartColor_def canonicalBucket_unfold Let_def by simp
  have c2: "getStatusClass cm s = pill (statusColors (canonicalBucket (normalizeStatus cm s)))"
    unfolding getStatusClass_def canonicalBucket_unfold Let_def by simp
  have ex: "canonicalBucket (js ''PARALIZADO - AGUARDANDO CLIENTE'') = PARALIZADO"
    unfolding canonicalBucket_unfold by (simp add: string_defs)
  have tr: "trim (js ''PARALIZADO - AGUARDANDO CLIENTE'') = js ''PARALIZADO - AGUARDANDO CLIENTE''"
    by (simp add: string_defs)
  have ex2: "getStatusChartColor cm (js ''PARALIZADO - AGUARDANDO CLIENTE'') = chart (statusColors PARALIZADO)"
    if "toUpperCase cm (js ''PARALIZADO - AGUARDANDO CLIENTE'') = js ''PARALIZADO - AGUARDANDO CLIENTE''"
  proof -
    have "normalizeStatus cm (js ''PARALIZADO - AGUARDANDO CLIENTE'') = js ''PARALIZADO - AGUARDANDO CLIENTE''"
      unfolding normalizeStatus_def tr that by (simp add: js_def)
    then show ?thesis using c1 ex by simp
  qed
  have counts:
    "finished (summary (dashboardMemo cm data projects)) =
       length (filter (\<lambda>p. canonicalBucket (STATUS p) = FINALIZADO) data)"
    "inProgress (summary (dashboardMemo cm data projects)) =
       length (filter (\<lambda>p. canonicalBucket (STATUS p) = EM_ANDAMENTO) data)"
    "paralyzed (summary (dashboardMemo cm data projects)) =
       length (filter (\<lambda>p. canonicalBucket (STATUS p) = PARALIZADO) data)"
    "notStarted (summary (dashboardMemo cm data projects)) =
       length (filter (\<lambda>p. canonicalBucket (STATUS p) = NAO_INICIADO) data)"
    by (simp_all add: dashboardMemo_def Let_def fold_tallyProject_counters tally0_def)
  have stored: "STATUS p = normalizeStatus cm (cellOrEmpty (split_char 0x3B line) (idx_status m))"
    if "rowOf cm m line = Some p"
    using that by (auto simp: rowOf_def Let_def split: if_splits)
  have "paralyzed (summary (dashboardMemo cm d projects)) =
      length (filter (\<lambda>p. canonicalBucket (STATUS p) = PARALIZADO) d)" for d
    by (simp add: dashboardMemo_def Let_def fold_tallyProject_counters tally0_def)
  then have one: "paralyzed (summary (dashboardMemo cm
      [q\<lparr>STATUS := js ''PARALIZADO - AGUARDANDO CLIENTE''\<rparr>] projects)) = 1"
    by (simp add: ex)
  show ?thesis using c1 c2 ex ex2 counts stored one by blast
qed

text \<open>
  With the Basic Latin case mapping: the row \<open>Acme; paralizado - aguardando cliente\<close> is stored
  with its status in upper case, drawn in the colour of PARALIZADO and counted as paralyzed.
\<close>

theorem status_prefix_classifier_witness:
  "rowOf basicLatin
     \<lparr> idx_cliente = Some 0, idx_tipoProjeto = None, idx_tipoProduto = None, idx_bus = None,
       idx_cCusto = None, idx_status = Some 1, idx_perc = None \<rparr>
     (js ''Acme; paralizado - aguardando cliente '') =
   Some \<lparr> CLIENTE = js ''Acme'', TIPO_DE_PROJETO = [], TIPO_DE_PRODUTO = [], BUs = [], C_Custo = [],
          STATUS = js ''PARALIZADO - AGUARDANDO CLIENTE'', perc = None \<rparr> \<and>
   getStatusChartColor basicLatin (js ''PARALIZADO - AGUARDANDO CLIENTE'') = js ''#ef4444'' \<and>
   paralyzed (summary (dashboardMemo basicLatin
      [\<lparr> CLIENTE = js ''Acme'', TIPO_DE_PROJETO = [], TIPO_DE_PRODUTO = [], BUs = [], C_Custo = [],
         STATUS = js ''PARALIZADO - AGUARDANDO CLIENTE'', perc = None \<rparr>] [])) = 1"
proof -
  let ?s = "js ''PARALIZADO - AGUARDANDO CLIENTE''"
  let ?m = "\<lparr> idx_cliente = Some 0, idx_tipoProjeto = None, idx_tipoProduto = None, idx_bus = None,
       idx_cCusto = None, idx_status = Some 1, idx_perc = None \<rparr>"
  let ?line = "js ''Acme; paralizado - aguardando cliente ''"
  let ?p = "\<lparr> CLIENTE = js ''Acme'', TIPO_DE_PROJETO = [], TIPO_DE_PRODUTO = [], BUs = [],
         C_Custo = [], STATUS = ?s, perc = None \<rparr>"
  have row: "rowOf basicLatin ?m ?line = Some ?p"
    by (simp add: rowOf_def cellOrEmpty_def getCell_def normalizeStatus_def normalizePercent_def
        string_defs basicLatin_def Let_def)
  have up: "toUpperCase basicLatin ?s = ?s"
    by (simp add: basicLatin_def js_def)
  note inst = status_prefix_classifier [of basicLatin ?s "[?p]" "[]" ?m ?line ?p]
  from inst row have "STATUS ?p = normalizeStatus basicLatin (cellOrEmpty (split_char 0x3B ?line) (idx_status ?m))"
    by blast
  from inst up have colour: "getStatusChartColor basicLatin ?s = chart (statusColors PARALIZADO)"
    by blast
  from inst have bucket: "canonicalBucket ?s = PARALIZADO"
    by blast
  from inst have "paralyzed (summary (dashboardMemo basicLatin [?p] [])) =
      length (filter (\<lambda>p. canonicalBucket (STATUS p) = PARALIZADO) [?p])"
    by blast
  with bucket have "paralyzed (summary (dashboardMemo basicLatin [?p] [])) = 1"
    by simp
  with row colour show ?thesis by simp
qed

section \<open>C6: the average percentage\<close>














section \<open>The parser as a filter over the data lines\<close>

lemma findIndex_None: "(findIndex P xs = None) = (\<forall>x\<in>set xs. \<not> P x)"
  by (induction xs) auto

lemma findColumn_single_None:
  "(findColumn cm hs [n] = None) = (\<forall>h\<in>set hs. toLowerCase cm h \<noteq> toLowerCase cm n)"
proof -
  have "findColumn cm hs [n] = findIndex (\<lambda>h. toLowerCase cm h = toLowerCase cm n) hs"
    by (simp split: option.splits)
  then show ?thesis by (simp add: findIndex_None)
qed

lemma rowLoop_map_filter:
  "rowLoop cm m lines i rows = rows @ List.map_filter (rowOf cm m) (drop i lines)"
proof (induction cm m lines i rows rule: rowLoop.induct)
  case (1 cm m lines i rows)
  show ?case
  proof (cases "i < length lines")
    case False
    then show ?thesis by (simp add: List.map_filter_def)
  next
    case True
    then have d: "drop i lines = lines ! i # drop (i + 1) lines"
      by (simp add: Cons_nth_drop_Suc)
    show ?thesis
    proof (cases "rowOf cm m (lines ! i)")
      case None
      with True 1(1) show ?thesis
        by (subst rowLoop.simps) (simp add: d List.map_filter_def)
    next
      case (Some r)
      with True 1(2) show ?thesis
        by (subst rowLoop.simps) (simp add: d List.map_filter_def)
    qed
  qed
qed

lemma dropWhile_trimmed_end:
  assumes "xs = [] \<or> \<not> P (hd xs)"
  shows "dropWhile P (rev (dropWhile P (rev xs))) = rev (dropWhile P (rev xs))"
proof (cases "dropWhile P (rev xs) = []")
  case True
  show ?thesis by (simp only: True rev.simps dropWhile.simps)
next
  case False
  define ys where "ys = dropWhile P (rev xs)"
  have "rev xs = takeWhile P (rev xs) @ ys"
    by (simp add: ys_def)
  then have "rev (rev xs) = rev ys @ rev (takeWhile P (rev xs))"
    by (metis rev_append)
  then obtain zs where xs: "xs = rev ys @ zs"
    by simp
  have nz: "rev ys \<noteq> []"
    using False by (simp add: ys_def)
  then have "hd (rev ys) = hd xs" "xs \<noteq> []"
    unfolding xs by simp_all
  with assms have "\<not> P (hd (rev ys))" by simp
  with nz show ?thesis
    unfolding ys_def [symmetric] by (cases "rev ys") simp_all
qed

lemma trim_idem: "trim (trim s) = trim s"
proof -
  have h: "dropWhile isWhiteSpace s = [] \<or> \<not> isWhiteSpace (hd (dropWhile isWhiteSpace s))"
    using hd_dropWhile by blast
  show ?thesis
    unfolding trim_def dropWhile_trimmed_end [of "dropWhile isWhiteSpace s" isWhiteSpace, OF h]
    by (simp add: dropWhile_idem)
qed

lemma getCell_trimmed: "trim (getCell cells i) = getCell cells i"
  by (simp add: getCell_def trim_idem) (simp add: trim_def)

lemma cellOrEmpty_trimmed: "trim (cellOrEmpty cells i) = cellOrEmpty cells i"
  by (cases i) (simp_all add: cellOrEmpty_def getCell_trimmed, simp add: trim_def)

lemma rowOf_Some:
  assumes "rowOf cm m line = Some p"
  shows "CLIENTE p = cellOrEmpty (split_char 0x3B line) (idx_cliente m)"
    "C_Custo p = cellOrEmpty (split_char 0x3B line) (idx_cCusto m)"
    "CLIENTE p \<noteq> [] \<or> C_Custo p \<noteq> []"
  using assms by (auto simp: rowOf_def Let_def split: if_splits)

lemma rowOf_identity:
  assumes "rowOf cm m line = Some p"
  shows "trim (CLIENTE p) \<noteq> [] \<or> trim (C_Custo p) \<noteq> []"
  using rowOf_Some [OF assms] by (simp add: cellOrEmpty_trimmed)

lemma parse_cases:
  "(\<exists>a. parseTeleinfoCsv cm text = (Some a, []) \<and> isErro a \<and>
        (csvHeaders cm text = None \<or> length (csvDataLines cm text) = 0 \<or>
         (\<exists>hs. csvHeaders cm text = Some hs \<and>
            findColumn cm hs [js ''CLIENTE''] = None \<and> findColumn cm hs [js ''C.Custo''] = None))) \<or>
   (\<exists>hs. csvHeaders cm text = Some hs \<and>
      \<not> (findColumn cm hs [js ''CLIENTE''] = None \<and> findColumn cm hs [js ''C.Custo''] = None) \<and>
      snd (parseTeleinfoCsv cm text) =
        List.map_filter (rowOf cm (resolveColumns cm hs)) (csvDataLines cm text) \<and>
      fst (parseTeleinfoCsv cm text) =
        (if snd (parseTeleinfoCsv cm text) = [] then Some AvisoSemLinhas else None))"
proof (cases "headerRowIndex cm (splitLines (stripBOM text))")
  case None
  then show ?thesis
    by (simp add: parseTeleinfoCsv_def csvHeaders_def Let_def)
next
  case (Some idx)
  define lines where "lines = usableLines (splitLines (stripBOM text)) idx"
  show ?thesis
  proof (cases lines)
    case Nil
    with Some show ?thesis
      by (simp add: parseTeleinfoCsv_def csvHeaders_def Let_def lines_def [symmetric])
  next
    case (Cons l ls)
    show ?thesis
    proof (cases "ls = []")
      case True
      with Some Cons show ?thesis
        by (simp add: parseTeleinfoCsv_def csvHeaders_def csvDataLines_def Let_def lines_def [symmetric])
    next
      case False
      then have len: "\<not> length lines < 2"
        using Cons by (cases ls) simp_all
      have hd: "lines ! 0 = l" using Cons by simp
      have dl: "csvDataLines cm text = ls"
        using Some Cons by (simp add: csvDataLines_def Let_def lines_def [symmetric])
      have hs: "csvHeaders cm text = Some (splitHeaders l)"
        using Some Cons by (simp add: csvHeaders_def Let_def lines_def [symmetric])
      have dr: "drop 1 lines = ls" using Cons by simp
      define m where "m = resolveColumns cm (splitHeaders l)"
      define rows where "rows = List.map_filter (rowOf cm m) ls"
      have p: "parseTeleinfoCsv cm text =
          (if idx_cliente m = None \<and> idx_cCusto m = None then (Some ErroColunas, [])
           else (if length rows = 0 then Some AvisoSemLinhas else None, rows))"
        unfolding parseTeleinfoCsv_def Let_def Some option.case lines_def [symmetric] hd
          m_def [symmetric] rowLoop_map_filter dr rows_def
        using len by simp
      have cols: "idx_cliente m = findColumn cm (splitHeaders l) [js ''CLIENTE'']"
        "idx_cCusto m = findColumn cm (splitHeaders l) [js ''C.Custo'']"
        by (simp_all add: m_def resolveColumns_def)
      show ?thesis
      proof (cases "idx_cliente m = None \<and> idx_cCusto m = None")
        case True
        have "parseTeleinfoCsv cm text = (Some ErroColunas, [])"
          unfolding p using True by simp
        moreover have "findColumn cm (splitHeaders l) [js ''CLIENTE''] = None"
          "findColumn cm (splitHeaders l) [js ''C.Custo''] = None"
          using True cols by simp_all
        ultimately show ?thesis using hs by simp
      next
        case False
        have r: "parseTeleinfoCsv cm text = (if length rows = 0 then Some AvisoSemLinhas else None, rows)"
          unfolding p using False by simp
        have "\<not> (findColumn cm (splitHeaders l) [js ''CLIENTE''] = None \<and>
            findColumn cm (splitHeaders l) [js ''C.Custo''] = None)"
          using False cols by simp
        moreover have "snd (parseTeleinfoCsv cm text) =
            List.map_filter (rowOf cm (resolveColumns cm (splitHeaders l))) (csvDataLines cm text)"
          unfolding r dl rows_def m_def by simp
        moreover have "fst (parseTeleinfoCsv cm text) =
            (if snd (parseTeleinfoCsv cm text) = [] then Some AvisoSemLinhas else None)"
          unfolding r by simp
        ultimately show ?thesis using hs by blast
      qed
    qed
  qed
qed

section \<open>C7: no identity column\<close>

lemmas csv_defs = csvHeaders_def csvDataLines_def splitLines_def stripBOM_def headerRowIndex_def
  usableLines_def splitHeaders_def removeAll_char_def stripCR_def basicLatin_def Let_def

text \<open>
  C7: when the parser finds no header tokens (no line contains CLIENTE), or when no header
  token is CLIENTE and none is C.Custo (compared in lower case), it returns no record and
  raises one of the three error alerts.
\<close>

theorem missing_identity_columns_fatal:
  assumes "csvHeaders cm text = None \<or>
     (\<exists>hs. csvHeaders cm text = Some hs \<and>
        (\<forall>h\<in>set hs. toLowerCase cm h \<noteq> toLowerCase cm (js ''CLIENTE'')) \<and>
        (\<forall>h\<in>set hs. toLowerCase cm h \<noteq> toLowerCase cm (js ''C.Custo'')))"
  shows "snd (parseTeleinfoCsv cm text) = [] \<and>
     (\<exists>a. fst (parseTeleinfoCsv cm text) = Some a \<and> isErro a) \<and>
     parseTeleinfoCsv cm text \<in>
       {(Some ErroCabecalho, []), (Some ErroVazio, []), (Some ErroColunas, [])}"
proof -
  from parse_cases [of cm "text"] consider
    (fatal) a where "parseTeleinfoCsv cm text = (Some a, [])" "isErro a"
  | (rows) hs where "csvHeaders cm text = Some hs"
      "\<not> (findColumn cm hs [js ''CLIENTE''] = None \<and> findColumn cm hs [js ''C.Custo''] = None)"
    by blast
  then show ?thesis
  proof cases
    case fatal
    then show ?thesis by (cases a) simp_all
  next
    case rows
    from assms rows(1) have
      "(\<forall>h\<in>set hs. toLowerCase cm h \<noteq> toLowerCase cm (js ''CLIENTE'')) \<and>
       (\<forall>h\<in>set hs. toLowerCase cm h \<noteq> toLowerCase cm (js ''C.Custo''))"
      by simp
    then have "findColumn cm hs [js ''CLIENTE''] = None \<and> findColumn cm hs [js ''C.Custo''] = None"
      by (simp only: findColumn_single_None)
    with rows(2) show ?thesis by contradiction
  qed
qed

text \<open>
  A header \<open>NOME DO CLIENTE;STATUS\<close>, which contains CLIENTE but has no such column, and a
  header \<open>NOME;STATUS\<close>, which is not found as a header.
\<close>

theorem missing_identity_columns_fatal_witness:
  "parseTeleinfoCsv basicLatin (js ''NOME DO CLIENTE;STATUS'' @ [0xA] @ js ''Acme;OK'') \<in>
     {(Some ErroCabecalho, []), (Some ErroVazio, []), (Some ErroColunas, [])} \<and>
   parseTeleinfoCsv basicLatin (js ''NOME;STATUS'' @ [0xA] @ js ''Acme;OK'') \<in>
     {(Some ErroCabecalho, []), (Some ErroVazio, []), (Some ErroColunas, [])}"
proof -
  let ?t1 = "js ''NOME DO CLIENTE;STATUS'' @ [0xA] @ js ''Acme;OK''"
  let ?t2 = "js ''NOME;STATUS'' @ [0xA] @ js ''Acme;OK''"
  have h1: "csvHeaders basicLatin ?t1 = Some [js ''NOME DO CLIENTE'', js ''STATUS'']"
    by (simp add: csv_defs string_defs)
  have "(\<forall>h\<in>set [js ''NOME DO CLIENTE'', js ''STATUS''].
           toLowerCase basicLatin h \<noteq> toLowerCase basicLatin (js ''CLIENTE'')) \<and>
        (\<forall>h\<in>set [js ''NOME DO CLIENTE'', js ''STATUS''].
           toLowerCase basicLatin h \<noteq> toLowerCase basicLatin (js ''C.Custo''))"
    by (simp add: basicLatin_def js_def)
  with h1 have p1: "csvHeaders basicLatin ?t1 = None \<or>
     (\<exists>hs. csvHeaders basicLatin ?t1 = Some hs \<and>
        (\<forall>h\<in>set hs. toLowerCase basicLatin h \<noteq> toLowerCase basicLatin (js ''CLIENTE'')) \<and>
        (\<forall>h\<in>set hs. toLowerCase basicLatin h \<noteq> toLowerCase basicLatin (js ''C.Custo'')))"
    by blast
  have "csvHeaders basicLatin ?t2 = None"
    by (simp add: csv_defs string_defs)
  then have p2: "csvHeaders basicLatin ?t2 = None \<or>
     (\<exists>hs. csvHeaders basicLatin ?t2 = Some hs \<and>
        (\<forall>h\<in>set hs. toLowerCase basicLatin h \<noteq> toLowerCase basicLatin (js ''CLIENTE'')) \<and>
        (\<forall>h\<in>set hs. toLowerCase basicLatin h \<noteq> toLowerCase basicLatin (js ''C.Custo'')))"
    by blast
  from missing_identity_columns_fatal [OF p1] missing_identity_columns_fatal [OF p2]
  show ?thesis by blast
qed

section \<open>C9: the rows and their order\<close>

lemma rowOf_None:
  "(rowOf cm m line = None) =
     (cellOrEmpty (split_char 0x3B line) (idx_cliente m) = [] \<and>
      cellOrEmpty (split_char 0x3B line) (idx_cCusto m) = [])"
  by (simp add: rowOf_def Let_def)

lemma subseq_drop: "subseq (drop n xs) xs"
  by (metis append_take_drop_id list_emb_append2 subseq_order.order_refl)

lemma subseq_tl: "subseq (tl xs) xs"
  using subseq_drop [of 1 xs] by (simp add: drop_Suc)

lemma csvDataLines_subseq: "subseq (csvDataLines cm text) (splitLines (stripBOM text))"
proof (cases "headerRowIndex cm (splitLines (stripBOM text))")
  case None
  then show ?thesis by (simp add: csvDataLines_def)
next
  case (Some idx)
  have "subseq (tl (usableLines (splitLines (stripBOM text)) idx)) (splitLines (stripBOM text))"
    unfolding usableLines_def
    by (meson subseq_tl subseq_filter_left subseq_drop subseq_order.order_trans)
  with Some show ?thesis by (simp add: csvDataLines_def)
qed

lemma parse_rows:
  "snd (parseTeleinfoCsv cm text) =
     List.map_filter (rowOf cm (csvColumns cm text)) (csvDataLines cm text)"
proof -
  from parse_cases [of cm "text"] consider
    (fatal) a where "parseTeleinfoCsv cm text = (Some a, [])"
      "csvHeaders cm text = None \<or> length (csvDataLines cm text) = 0 \<or>
         (\<exists>hs. csvHeaders cm text = Some hs \<and>
            findColumn cm hs [js ''CLIENTE''] = None \<and> findColumn cm hs [js ''C.Custo''] = None)"
  | (rows) hs where "csvHeaders cm text = Some hs"
      "snd (parseTeleinfoCsv cm text) =
        List.map_filter (rowOf cm (resolveColumns cm hs)) (csvDataLines cm text)"
    by blast
  then show ?thesis
  proof cases
    case fatal
    have "List.map_filter (rowOf cm (csvColumns cm text)) (csvDataLines cm text) = []"
      using fatal(2)
    proof (elim disjE exE conjE)
      assume "csvHeaders cm text = None"
      then have "csvDataLines cm text = []"
        by (auto simp: csvHeaders_def csvDataLines_def Let_def split: option.splits list.splits)
      then show ?thesis by (simp add: List.map_filter_def)
    next
      assume "length (csvDataLines cm text) = 0"
      then show ?thesis by (simp add: List.map_filter_def)
    next
      fix hs
      assume "csvHeaders cm text = Some hs"
        "findColumn cm hs [js ''CLIENTE''] = None" "findColumn cm hs [js ''C.Custo''] = None"
      then have "idx_cliente (csvColumns cm text) = None" "idx_cCusto (csvColumns cm text) = None"
        by (simp_all add: csvColumns_def resolveColumns_def)
      then have "rowOf cm (csvColumns cm text) l = None" for l
        by (simp add: rowOf_None cellOrEmpty_def)
      then show ?thesis by (simp add: List.map_filter_def)
    qed
    with fatal(1) show ?thesis by simp
  next
    case rows
    then show ?thesis by (simp add: csvColumns_def)
  qed
qed

text \<open>
  C9: the records returned are the rows built from the data lines, in the order of these
  lines in the input, without the lines whose CLIENTE and C.Custo cells are both blank;
  every record has a CLIENTE or a C.Custo that is not empty after trimming.
\<close>

theorem rows_identity_and_order:
  "snd (parseTeleinfoCsv cm text) =
     List.map_filter (rowOf cm (csvColumns cm text)) (csvDataLines cm text) \<and>
   subseq (csvDataLines cm text) (splitLines (stripBOM text)) \<and>
   (\<forall>p\<in>set (snd (parseTeleinfoCsv cm text)). trim (CLIENTE p) \<noteq> [] \<or> trim (C_Custo p) \<noteq> []) \<and>
   (rowOf cm m line = None) =
     (cellOrEmpty (split_char 0x3B line) (idx_cliente m) = [] \<and>
      cellOrEmpty (split_char 0x3B line) (idx_cCusto m) = [])"
proof -
  have "trim (CLIENTE p) \<noteq> [] \<or> trim (C_Custo p) \<noteq> []"
    if "p \<in> set (snd (parseTeleinfoCsv cm text))" for p
  proof -
    from that obtain l where "rowOf cm (csvColumns cm text) l = Some p"
      unfolding parse_rows by (auto simp: List.map_filter_def)
    then show ?thesis by (rule rowOf_identity)
  qed
  then show ?thesis
    using parse_rows csvDataLines_subseq rowOf_None by blast
qed

text \<open>
  A byte-order mark, two junk lines, the header, a row, a row with no identity and a second
  row: two records, in the order of the input.
\<close>

theorem rows_identity_and_order_witness:
  "snd (parseTeleinfoCsv basicLatin
     ([0xFEFF] @ js ''junk'' @ [0xD, 0xA] @ js ''more junk'' @ [0xA] @ js ''CLIENTE;STATUS;%'' @ [0xA] @
      js ''Acme;Finalizado OK;80%'' @ [0xA] @ js '' ; ;5'' @ [0xA] @ js ''Beta;em andamento;45,5'')) =
   [\<lparr> CLIENTE = js ''Acme'', TIPO_DE_PROJETO = [], TIPO_DE_PRODUTO = [], BUs = [], C_Custo = [],
       STATUS = js ''FINALIZADO OK'', perc = Some (Num 80) \<rparr>,
     \<lparr> CLIENTE = js ''Beta'', TIPO_DE_PROJETO = [], TIPO_DE_PRODUTO = [], BUs = [], C_Custo = [],
       STATUS = js ''EM ANDAMENTO'', perc = Some (Num 45.5) \<rparr>]"
proof -
  let ?t = "[0xFEFF] @ js ''junk'' @ [0xD, 0xA] @ js ''more junk'' @ [0xA] @ js ''CLIENTE;STATUS;%'' @ [0xA] @
      js ''Acme;Finalizado OK;80%'' @ [0xA] @ js '' ; ;5'' @ [0xA] @ js ''Beta;em andamento;45,5''"
  let ?m = "\<lparr> idx_cliente = Some 0, idx_tipoProjeto = None, idx_tipoProduto = None,
      idx_bus = None, idx_cCusto = None, idx_status = Some 1, idx_perc = Some 2 \<rparr>"
  have h: "csvHeaders basicLatin ?t = Some [js ''CLIENTE'', js ''STATUS'', js ''%'']"
    by (simp add: csv_defs string_defs)
  have c: "csvColumns basicLatin ?t = ?m"
    unfolding csvColumns_def h by (simp add: resolveColumns_def basicLatin_def js_def)
  have d: "csvDataLines basicLatin ?t =
      [js ''Acme;Finalizado OK;80%'', js '' ; ;5'', js ''Beta;em andamento;45,5'']"
    by (simp add: csv_defs string_defs)
  have r: "List.map_filter (rowOf basicLatin ?m)
      [js ''Acme;Finalizado OK;80%'', js '' ; ;5'', js ''Beta;em andamento;45,5''] =
     [\<lparr> CLIENTE = js ''Acme'', TIPO_DE_PROJETO = [], TIPO_DE_PRODUTO = [], BUs = [], C_Custo = [],
         STATUS = js ''FINALIZADO OK'', perc = Some (Num 80) \<rparr>,
       \<lparr> CLIENTE = js ''Beta'', TIPO_DE_PROJETO = [], TIPO_DE_PRODUTO = [], BUs = [], C_Custo = [],
         STATUS = js ''EM ANDAMENTO'', perc = Some (Num 45.5) \<rparr>]"
    by (simp add: List.map_filter_def rowOf_def cellOrEmpty_def getCell_def normalizeStatus_def
        normalizePercent_def string_defs number_defs basicLatin_def Let_def)
  from rows_identity_and_order [of basicLatin ?t]
  have "snd (parseTeleinfoCsv basicLatin ?t) =
      List.map_filter (rowOf basicLatin (csvColumns basicLatin ?t)) (csvDataLines basicLatin ?t)"
    by (rule conjunct1)
  then show ?thesis
    unfolding c d r .
qed

section \<open>C8: the filter choices\<close>

lemma Set_add_set: "set (Set_add x s) = insert x (set s)"
  by (auto simp: Set_add_def)

lemma Set_add_distinct: "distinct s \<Longrightarrow> distinct (Set_add x s)"
  by (simp add: Set_add_def)

lemma collectFilters_fields:
  "statuses (collectFilters p u) = (if STATUS p \<noteq> [] then Set_add (STATUS p) (statuses u) else statuses u)"
  "bus (collectFilters p u) = (if BUs p \<noteq> [] then Set_add (BUs p) (bus u) else bus u)"
  "clients (collectFilters p u) = (if CLIENTE p \<noteq> [] then Set_add (CLIENTE p) (clients u) else clients u)"
  by (simp_all add: collectFilters_def Let_def)

lemma fold_collectFilters_set:
  "set (statuses (fold collectFilters ps u)) = set (statuses u) \<union> (STATUS ` set ps - {[]})"
  "set (bus (fold collectFilters ps u)) = set (bus u) \<union> (BUs ` set ps - {[]})"
  "set (clients (fold collectFilters ps u)) = set (clients u) \<union> (CLIENTE ` set ps - {[]})"
  by (induction ps arbitrary: u) (auto simp: collectFilters_fields Set_add_set)

lemma fold_collectFilters_distinct:
  "distinct (statuses u) \<Longrightarrow> distinct (statuses (fold collectFilters ps u))"
  "distinct (bus u) \<Longrightarrow> distinct (bus (fold collectFilters ps u))"
  "distinct (clients u) \<Longrightarrow> distinct (clients (fold collectFilters ps u))"
  by (induction ps arbitrary: u) (simp_all add: collectFilters_fields Set_add_distinct)

lemma uniqueFilters_dashboardMemo:
  "uniqueFilters (dashboardMemo cm data projects) =
     \<lparr> statuses = sort (statuses (fold collectFilters projects \<lparr> statuses = [], bus = [], clients = [] \<rparr>)),
       bus = sort (bus (fold collectFilters projects \<lparr> statuses = [], bus = [], clients = [] \<rparr>)),
       clients = sort (clients (fold collectFilters projects \<lparr> statuses = [], bus = [], clients = [] \<rparr>)) \<rparr>"
  by (simp add: dashboardMemo_def Let_def)

text \<open>
  C8: the filter choices of the dashboard are the same for any two selections of the status,
  business-unit and client filters: they are the distinct non-empty statuses, business
  units and clients of the whole collection, in ascending order.
\<close>

theorem filter_choices_independent:
  "uniqueFilters (dashboardView cm projects statusFilter buFilter clientFilter) =
     uniqueFilters (dashboardView cm projects statusFilter' buFilter' clientFilter') \<and>
   set (statuses (uniqueFilters (dashboardView cm projects statusFilter buFilter clientFilter))) =
     STATUS ` set projects - {[]} \<and>
   set (bus (uniqueFilters (dashboardView cm projects statusFilter buFilter clientFilter))) =
     BUs ` set projects - {[]} \<and>
   set (clients (uniqueFilters (dashboardView cm projects statusFilter buFilter clientFilter))) =
     CLIENTE ` set projects - {[]} \<and>
   sorted_wrt (<) (statuses (uniqueFilters (dashboardView cm projects statusFilter buFilter clientFilter))) \<and>
   sorted_wrt (<) (bus (uniqueFilters (dashboardView cm projects statusFilter buFilter clientFilter))) \<and>
   sorted_wrt (<) (clients (uniqueFilters (dashboardView cm projects statusFilter buFilter clientFilter)))"
  unfolding dashboardView_def uniqueFilters_dashboardMemo
  by (simp add: fold_collectFilters_set fold_collectFilters_distinct strict_sorted_iff)

text \<open>
  Two projects, seen with the status filter PARALIZADO and with the client filter Acme:
  the same status choices, FINALIZADO and PARALIZADO.
\<close>

theorem filter_choices_independent_witness:
  "statuses (uniqueFilters (dashboardView basicLatin
      [\<lparr> CLIENTE = js ''Beta'', TIPO_DE_PROJETO = [], TIPO_DE_PRODUTO = [], BUs = js ''TI'', C_Custo = [],
         STATUS = js ''PARALIZADO'', perc = None \<rparr>,
       \<lparr> CLIENTE = js ''Acme'', TIPO_DE_PROJETO = [], TIPO_DE_PRODUTO = [], BUs = js ''TI'', C_Custo = [],
         STATUS = js ''FINALIZADO'', perc = None \<rparr>]
      (js ''PARALIZADO'') [] [])) =
   statuses (uniqueFilters (dashboardView basicLatin
      [\<lparr> CLIENTE = js ''Beta'', TIPO_DE_PROJETO = [], TIPO_DE_PRODUTO = [], BUs = js ''TI'', C_Custo = [],
         STATUS = js ''PARALIZADO'', perc = None \<rparr>,
       \<lparr> CLIENTE = js ''Acme'', TIPO_DE_PROJETO = [], TIPO_DE_PRODUTO = [], BUs = js ''TI'', C_Custo = [],
         STATUS = js ''FINALIZADO'', perc = None \<rparr>]
      [] [] (js ''Acme''))) \<and>
   statuses (uniqueFilters (dashboardView basicLatin
      [\<lparr> CLIENTE = js ''Beta'', TIPO_DE_PROJETO = [], TIPO_DE_PRODUTO = [], BUs = js ''TI'', C_Custo = [],
         STATUS = js ''PARALIZADO'', perc = None \<rparr>,
       \<lparr> CLIENTE = js ''Acme'', TIPO_DE_PROJETO = [], TIPO_DE_PRODUTO = [], BUs = js ''TI'', C_Custo = [],
         STATUS = js ''FINALIZADO'', perc = None \<rparr>]
      (js ''PARALIZADO'') [] [])) = [js ''FINALIZADO'', js ''PARALIZADO'']"
proof -
  let ?ps = "[\<lparr> CLIENTE = js ''Beta'', TIPO_DE_PROJETO = [], TIPO_DE_PRODUTO = [], BUs = js ''TI'',
         C_Custo = [], STATUS = js ''PARALIZADO'', perc = None \<rparr>,
       \<lparr> CLIENTE = js ''Acme'', TIPO_DE_PROJETO = [], TIPO_DE_PRODUTO = [], BUs = js ''TI'',
         C_Custo = [], STATUS = js ''FINALIZADO'', perc = None \<rparr>]"
  from filter_choices_independent [of basicLatin ?ps "js ''PARALIZADO''" "[]" "[]" "[]" "[]" "js ''Acme''"]
  have "uniqueFilters (dashboardView basicLatin ?ps (js ''PARALIZADO'') [] []) =
      uniqueFilters (dashboardView basicLatin ?ps [] [] (js ''Acme''))"
    by (rule conjunct1)
  then have same: "statuses (uniqueFilters (dashboardView basicLatin ?ps (js ''PARALIZADO'') [] [])) =
      statuses (uniqueFilters (dashboardView basicLatin ?ps [] [] (js ''Acme'')))"
    by (rule arg_cong)
  have "statuses (uniqueFilters (dashboardView basicLatin ?ps (js ''PARALIZADO'') [] [])) =
      [js ''FINALIZADO'', js ''PARALIZADO'']"
    by (simp add: dashboardView_def uniqueFilters_dashboardMemo collectFilters_def Set_add_def js_def
        Let_def)
  with same show ?thesis by (rule conjI)
qed


section \<open>C10: the two summaries\<close>

lemma statusColors_P_eq: "statusColors_P k = statusColors k"
  by (cases k) simp_all

lemma normalizeStatus_P_eq: "normalizeStatus_P cm s = normalizeStatus cm s"
  by (simp add: normalizeStatus_P_def normalizeStatus_def)

lemma getStatusChartColor_P_eq: "getStatusChartColor_P cm s = getStatusChartColor cm s"
  unfolding getStatusChartColor_P_def getStatusChartColor_def normalizeStatus_P_eq statusColors_P_eq
    label.simps
  by (rule refl)

lemma getBuChartColor_P_eq: "getBuChartColor_P cm s = getBuChartColor cm s"
  unfolding getBuChartColor_P_def getBuChartColor_def
  by (rule refl)

lemma tallyProject_P_eq: "tallyProject_P = tallyProject"
  by (intro ext) (simp only: tallyProject_P_def tallyProject_def label.simps)

lemma avg_P_eq: "avg_P cm data = avg cm data"
  by (simp add: avg_P_def avg_def percValues_P_def percValues_def)

text \<open>
  C10: on the same list of records, the summary of the dashboard and the portfolio summary
  of the presentation have the same total, the same average text, the same four counters
  and the same status and business-unit chart data. With no filter selected, the dashboard
  summary of the whole collection is the portfolio summary of the presentation.
\<close>

theorem dashboard_presentation_equivalent:
  "total (summary (dashboardMemo cm data projects)) = total (portfolioSummary cm data) \<and>
   avgPercent (summary (dashboardMemo cm data projects)) = avgPercent (portfolioSummary cm data) \<and>
   finished (summary (dashboardMemo cm data projects)) = finished (portfolioSummary cm data) \<and>
   inProgress (summary (dashboardMemo cm data projects)) = inProgress (portfolioSummary cm data) \<and>
   paralyzed (summary (dashboardMemo cm data projects)) = paralyzed (portfolioSummary cm data) \<and>
   notStarted (summary (dashboardMemo cm data projects)) = notStarted (portfolioSummary cm data) \<and>
   statusChartData (dashboardMemo cm data projects) = statusChartData_P (portfolioSummary cm data) \<and>
   buChartData (dashboardMemo cm data projects) = buChartData_P (portfolioSummary cm data) \<and>
   summary (dashboardView cm projects [] [] []) = summary.truncate (portfolioSummary cm projects)"
proof -
  have c1: "(\<lambda>(k, v). \<lparr> name = k, Projetos = v, color = getStatusChartColor_P cm k \<rparr>) =
            (\<lambda>(k, v). \<lparr> name = k, Projetos = v, color = getStatusChartColor cm k \<rparr>)"
    by (simp add: getStatusChartColor_P_eq)
  have c2: "(\<lambda>(k, v). \<lparr> name = k, Projetos = v, color = getBuChartColor_P cm k \<rparr>) =
            (\<lambda>(k, v). \<lparr> name = k, Projetos = v, color = getBuChartColor cm k \<rparr>)"
    by (simp add: getBuChartColor_P_eq)
  have nofilter: "filteredProjects projects [] [] [] = projects"
    by (simp add: filteredProjects_def)
  show ?thesis
    by (simp add: dashboardMemo_def portfolioSummary_def dashboardView_def Let_def tallyProject_P_eq c1 c2 avg_P_eq
        tally0_def nofilter summary.truncate_def)
qed

end
